theory Spec2Isabelle
  imports Complex_Main
begin

section \<open>Scalars: the values of a C++ double\<close>

text \<open>
  Every scalar of \<^verbatim>\<open>pose.cpp\<close> is a \<^verbatim>\<open>double\<close>. A double is modelled as a real
  number or one of the three special values of IEEE 754. Rounding and overflow of
  finite results are not modelled (a finite operation returns the exact real result),
  and the two zeros are identified; so "within floating tolerance" of the specification
  reads as equality here. What is modelled exactly is where special values are born and
  how they propagate: \<open>0/0\<close> is \<open>NaN\<close>, \<open>a/0\<close> is an infinity for \<open>a \<noteq> 0\<close>, every
  operation on \<open>NaN\<close> is \<open>NaN\<close>, and every comparison with \<open>NaN\<close> is false.
\<close>

datatype double = Fin real | PInf | NInf | NaN

fun isfinite :: "double \<Rightarrow> bool" where
  "isfinite (Fin a) = True"
| "isfinite PInf = False"
| "isfinite NInf = False"
| "isfinite NaN = False"

text \<open>The infinity carrying the sign of \<open>a\<close>; \<open>NaN\<close> when \<open>a\<close> is zero.\<close>

definition inf_signed :: "real \<Rightarrow> double" where
  "inf_signed a = (if a = 0 then NaN else if 0 < a then PInf else NInf)"

instantiation double :: "{plus, uminus, minus, times, inverse, ord}"
begin

fun plus_double :: "double \<Rightarrow> double \<Rightarrow> double" where
  "plus_double NaN b = NaN"
| "plus_double a NaN = NaN"
| "plus_double (Fin a) (Fin b) = Fin (a + b)"
| "plus_double PInf NInf = NaN"
| "plus_double NInf PInf = NaN"
| "plus_double PInf b = PInf"
| "plus_double a PInf = PInf"
| "plus_double NInf b = NInf"
| "plus_double a NInf = NInf"

fun uminus_double :: "double \<Rightarrow> double" where
  "uminus_double (Fin a) = Fin (- a)"
| "uminus_double PInf = NInf"
| "uminus_double NInf = PInf"
| "uminus_double NaN = NaN"

definition minus_double :: "double \<Rightarrow> double \<Rightarrow> double" where
  "minus_double a b = a + (- b)"

fun times_double :: "double \<Rightarrow> double \<Rightarrow> double" where
  "times_double NaN b = NaN"
| "times_double a NaN = NaN"
| "times_double (Fin a) (Fin b) = Fin (a * b)"
| "times_double (Fin a) PInf = inf_signed a"
| "times_double (Fin a) NInf = inf_signed (- a)"
| "times_double PInf (Fin b) = inf_signed b"
| "times_double NInf (Fin b) = inf_signed (- b)"
| "times_double PInf PInf = PInf"
| "times_double PInf NInf = NInf"
| "times_double NInf PInf = NInf"
| "times_double NInf NInf = PInf"

fun divide_double :: "double \<Rightarrow> double \<Rightarrow> double" where
  "divide_double NaN b = NaN"
| "divide_double a NaN = NaN"
| "divide_double (Fin a) (Fin b) = (if b = 0 then inf_signed a else Fin (a / b))"
| "divide_double (Fin a) PInf = Fin 0"
| "divide_double (Fin a) NInf = Fin 0"
| "divide_double PInf (Fin b) = (if 0 \<le> b then PInf else NInf)"
| "divide_double NInf (Fin b) = (if 0 \<le> b then NInf else PInf)"
| "divide_double PInf PInf = NaN"
| "divide_double PInf NInf = NaN"
| "divide_double NInf PInf = NaN"
| "divide_double NInf NInf = NaN"

definition inverse_double :: "double \<Rightarrow> double" where
  "inverse_double b = divide (Fin 1) b"

fun less_double :: "double \<Rightarrow> double \<Rightarrow> bool" where
  "less_double NaN b = False"
| "less_double a NaN = False"
| "less_double (Fin a) (Fin b) = (a < b)"
| "less_double (Fin a) PInf = True"
| "less_double (Fin a) NInf = False"
| "less_double PInf b = False"
| "less_double NInf (Fin b) = True"
| "less_double NInf PInf = True"
| "less_double NInf NInf = False"

fun less_eq_double :: "double \<Rightarrow> double \<Rightarrow> bool" where
  "less_eq_double NaN b = False"
| "less_eq_double a NaN = False"
| "less_eq_double (Fin a) (Fin b) = (a \<le> b)"
| "less_eq_double (Fin a) PInf = True"
| "less_eq_double (Fin a) NInf = False"
| "less_eq_double PInf PInf = True"
| "less_eq_double PInf b = False"
| "less_eq_double NInf b = True"

instance ..

end

text \<open>\<^verbatim>\<open>std::sqrt\<close>: \<open>NaN\<close> on a negative argument.\<close>

fun dsqrt :: "double \<Rightarrow> double" where
  "dsqrt (Fin a) = (if a < 0 then NaN else Fin (sqrt a))"
| "dsqrt PInf = PInf"
| "dsqrt NInf = NaN"
| "dsqrt NaN = NaN"


section \<open>The Eigen types and operations that pose.cpp uses\<close>

text \<open>
  \<^verbatim>\<open>Eigen::Vector3d\<close>, \<^verbatim>\<open>Eigen::Matrix3d\<close>, \<^verbatim>\<open>Eigen::Matrix4d\<close> (rows of
  coefficients) and \<^verbatim>\<open>Eigen::Quaterniond\<close>, whose constructor takes the
  coefficients in the order \<open>w, x, y, z\<close>. The operations below transcribe Eigen 3.3
  (\<^verbatim>\<open>Geometry/Quaternion.h\<close>, \<^verbatim>\<open>Geometry/OrthoMethods.h\<close>, \<^verbatim>\<open>Core/Dot.h\<close>); Eigen
  is a library the repository links against, not part of it.
\<close>

datatype Vector3d = Vector3d (vx: double) (vy: double) (vz: double)

datatype Vector4d = Vector4d double double double double

datatype Matrix3d = Matrix3d (row0: Vector3d) (row1: Vector3d) (row2: Vector3d)

datatype Matrix4d = Matrix4d Vector4d Vector4d Vector4d Vector4d

datatype Quaterniond = Quaterniond (qw: double) (qx: double) (qy: double) (qz: double)

definition Vector3d_Zero :: Vector3d where
  "Vector3d_Zero = Vector3d (Fin 0) (Fin 0) (Fin 0)"

definition Matrix4d_Identity :: Matrix4d where
  "Matrix4d_Identity =
     Matrix4d (Vector4d (Fin 1) (Fin 0) (Fin 0) (Fin 0))
              (Vector4d (Fin 0) (Fin 1) (Fin 0) (Fin 0))
              (Vector4d (Fin 0) (Fin 0) (Fin 1) (Fin 0))
              (Vector4d (Fin 0) (Fin 0) (Fin 0) (Fin 1))"

definition Quaterniond_Identity :: Quaterniond where
  "Quaterniond_Identity = Quaterniond (Fin 1) (Fin 0) (Fin 0) (Fin 0)"

subsection \<open>Vectors\<close>

fun vadd :: "Vector3d \<Rightarrow> Vector3d \<Rightarrow> Vector3d" where
  "vadd (Vector3d a b c) (Vector3d a' b' c') = Vector3d (a + a') (b + b') (c + c')"

fun vneg :: "Vector3d \<Rightarrow> Vector3d" where
  "vneg (Vector3d a b c) = Vector3d (- a) (- b) (- c)"

text \<open>\<^verbatim>\<open>s * v\<close> and \<^verbatim>\<open>v /= s\<close>, coefficient by coefficient.\<close>

fun vscale :: "double \<Rightarrow> Vector3d \<Rightarrow> Vector3d" where
  "vscale s (Vector3d a b c) = Vector3d (s * a) (s * b) (s * c)"

fun vdiv :: "Vector3d \<Rightarrow> double \<Rightarrow> Vector3d" where
  "vdiv (Vector3d a b c) s = Vector3d (a / s) (b / s) (c / s)"

fun cross :: "Vector3d \<Rightarrow> Vector3d \<Rightarrow> Vector3d" where
  "cross (Vector3d a b c) (Vector3d a' b' c') =
     Vector3d (b * c' - c * b') (c * a' - a * c') (a * b' - b * a')"

subsection \<open>Matrices and their blocks\<close>

text \<open>\<^verbatim>\<open>mat.coeff(i, j)\<close> for \<open>i, j < 3\<close>.\<close>

fun vcoeff :: "Vector3d \<Rightarrow> nat \<Rightarrow> double" where
  "vcoeff (Vector3d a b c) j = (if j = 0 then a else if j = 1 then b else c)"

fun coeff :: "Matrix3d \<Rightarrow> nat \<Rightarrow> nat \<Rightarrow> double" where
  "coeff (Matrix3d r0 r1 r2) i j =
     vcoeff (if i = 0 then r0 else if i = 1 then r1 else r2) j"

definition trace :: "Matrix3d \<Rightarrow> double" where
  "trace m = coeff m 0 0 + coeff m 1 1 + coeff m 2 2"

fun topLeftCorner :: "Matrix4d \<Rightarrow> Matrix3d" where
  "topLeftCorner (Matrix4d (Vector4d a0 b0 c0 d0) (Vector4d a1 b1 c1 d1)
                           (Vector4d a2 b2 c2 d2) r3) =
     Matrix3d (Vector3d a0 b0 c0) (Vector3d a1 b1 c1) (Vector3d a2 b2 c2)"

fun topRightCorner :: "Matrix4d \<Rightarrow> Vector3d" where
  "topRightCorner (Matrix4d (Vector4d a0 b0 c0 d0) (Vector4d a1 b1 c1 d1)
                            (Vector4d a2 b2 c2 d2) r3) = Vector3d d0 d1 d2"

fun bottomRow :: "Matrix4d \<Rightarrow> Vector4d" where
  "bottomRow (Matrix4d r0 r1 r2 r3) = r3"

text \<open>The two block assignments \<^verbatim>\<open>T.topLeftCorner<3,3>() = R\<close> and
  \<^verbatim>\<open>T.topRightCorner<3,1>() = t\<close>: the other coefficients keep their values.\<close>

fun set_topLeftCorner :: "Matrix4d \<Rightarrow> Matrix3d \<Rightarrow> Matrix4d" where
  "set_topLeftCorner (Matrix4d (Vector4d a0 b0 c0 d0) (Vector4d a1 b1 c1 d1)
                               (Vector4d a2 b2 c2 d2) r3)
                     (Matrix3d (Vector3d e0 f0 g0) (Vector3d e1 f1 g1) (Vector3d e2 f2 g2)) =
     Matrix4d (Vector4d e0 f0 g0 d0) (Vector4d e1 f1 g1 d1) (Vector4d e2 f2 g2 d2) r3"

fun set_topRightCorner :: "Matrix4d \<Rightarrow> Vector3d \<Rightarrow> Matrix4d" where
  "set_topRightCorner (Matrix4d (Vector4d a0 b0 c0 d0) (Vector4d a1 b1 c1 d1)
                                (Vector4d a2 b2 c2 d2) r3) (Vector3d e0 e1 e2) =
     Matrix4d (Vector4d a0 b0 c0 e0) (Vector4d a1 b1 c1 e1) (Vector4d a2 b2 c2 e2) r3"

subsection \<open>Quaternions\<close>

definition squaredNorm :: "Quaterniond \<Rightarrow> double" where
  "squaredNorm q = qx q * qx q + qy q * qy q + qz q * qz q + qw q * qw q"

text \<open>\<^verbatim>\<open>q.normalize()\<close>: Eigen divides by the norm only when the squared norm is
  positive, so the zero quaternion and a quaternion with a \<open>NaN\<close> coefficient are left
  as they are.\<close>

text \<open>(Named \<open>normalize_quat\<close>: \<open>normalize\<close> is a constant of the library.)\<close>

definition normalize_quat :: "Quaterniond \<Rightarrow> Quaterniond" where
  "normalize_quat q =
     (let z = squaredNorm q in
      if z > Fin 0
      then Quaterniond (qw q / dsqrt z) (qx q / dsqrt z) (qy q / dsqrt z) (qz q / dsqrt z)
      else q)"

text \<open>\<^verbatim>\<open>a * b\<close>, the Hamilton product.\<close>

definition qmul :: "Quaterniond \<Rightarrow> Quaterniond \<Rightarrow> Quaterniond" where
  "qmul a b = Quaterniond
     (qw a * qw b - qx a * qx b - qy a * qy b - qz a * qz b)
     (qw a * qx b + qx a * qw b + qy a * qz b - qz a * qy b)
     (qw a * qy b + qy a * qw b + qz a * qx b - qx a * qz b)
     (qw a * qz b + qz a * qw b + qx a * qy b - qy a * qx b)"

definition conjugate :: "Quaterniond \<Rightarrow> Quaterniond" where
  "conjugate q = Quaterniond (qw q) (- qx q) (- qy q) (- qz q)"

text \<open>\<^verbatim>\<open>q.inverse()\<close>: the conjugate over the squared norm; the zero quaternion when
  the squared norm is not positive.\<close>

definition qinverse :: "Quaterniond \<Rightarrow> Quaterniond" where
  "qinverse q =
     (let n2 = squaredNorm q in
      if n2 > Fin 0
      then Quaterniond (qw q / n2) (- qx q / n2) (- qy q / n2) (- qz q / n2)
      else Quaterniond (Fin 0) (Fin 0) (Fin 0) (Fin 0))"

text \<open>\<^verbatim>\<open>q * v\<close> on a vector (\<^verbatim>\<open>_transformVector\<close>):
  \<^verbatim>\<open>uv = q.vec().cross(v); uv += uv; return v + q.w() * uv + q.vec().cross(uv);\<close>\<close>

definition transformVector :: "Quaterniond \<Rightarrow> Vector3d \<Rightarrow> Vector3d" where
  "transformVector q v =
     (let u = Vector3d (qx q) (qy q) (qz q);
          uv = cross u v;
          uv2 = vadd uv uv
      in vadd (vadd v (vscale (qw q) uv2)) (cross u uv2))"

definition toRotationMatrix :: "Quaterniond \<Rightarrow> Matrix3d" where
  "toRotationMatrix q =
     (let tx = Fin 2 * qx q; ty = Fin 2 * qy q; tz = Fin 2 * qz q;
          twx = tx * qw q; twy = ty * qw q; twz = tz * qw q;
          txx = tx * qx q; txy = ty * qx q; txz = tz * qx q;
          tyy = ty * qy q; tyz = tz * qy q; tzz = tz * qz q
      in Matrix3d
           (Vector3d (Fin 1 - (tyy + tzz)) (txy - twz) (txz + twy))
           (Vector3d (txy + twz) (Fin 1 - (txx + tzz)) (tyz - twx))
           (Vector3d (txz - twy) (tyz + twx) (Fin 1 - (txx + tyy))))"

text \<open>\<^verbatim>\<open>Eigen::Quaterniond(mat)\<close> for a 3x3 matrix (Shoemake's method). The
  coefficients are stored in the order \<open>x, y, z, w\<close>, so \<^verbatim>\<open>coeffRef(3)\<close> is \<open>w\<close>;
  all four are written on either branch.\<close>

definition quat_of_coeffs :: "(nat \<Rightarrow> double) \<Rightarrow> Quaterniond" where
  "quat_of_coeffs c = Quaterniond (c 3) (c 0) (c 1) (c 2)"

definition Quaterniond_of_matrix :: "Matrix3d \<Rightarrow> Quaterniond" where
  "Quaterniond_of_matrix mat =
     (let t = trace mat in
      if t > Fin 0 then
        (let t1 = dsqrt (t + Fin 1);
             t2 = Fin (1/2) / t1
         in Quaterniond (Fin (1/2) * t1)
              ((coeff mat 2 1 - coeff mat 1 2) * t2)
              ((coeff mat 0 2 - coeff mat 2 0) * t2)
              ((coeff mat 1 0 - coeff mat 0 1) * t2))
      else
        (let i0 = (if coeff mat 1 1 > coeff mat 0 0 then 1 else 0);
             i = (if coeff mat 2 2 > coeff mat i0 i0 then 2 else i0);
             j = (i + 1) mod 3;
             k = (j + 1) mod 3;
             t1 = dsqrt (coeff mat i i - coeff mat j j - coeff mat k k + Fin 1);
             t2 = Fin (1/2) / t1
         in quat_of_coeffs
              ((\<lambda>n. NaN)
                (i := Fin (1/2) * t1,
                 3 := (coeff mat k j - coeff mat j k) * t2,
                 j := (coeff mat j i + coeff mat i j) * t2,
                 k := (coeff mat k i + coeff mat i k) * t2))))"


section \<open>The odometry record\<close>

text \<open>\<^verbatim>\<open>nav_msgs::Odometry\<close> is a ROS message: a header, the child frame, a pose
  with covariance and a twist with covariance. The constructor of \<^verbatim>\<open>Pose\<close> reads
  \<^verbatim>\<open>odom.pose.pose.orientation\<close> and \<^verbatim>\<open>odom.pose.pose.position\<close>.\<close>

record Point =
  point_x :: double
  point_y :: double
  point_z :: double

record QuaternionMsg =
  quat_x :: double
  quat_y :: double
  quat_z :: double
  quat_w :: double

record PoseMsg =
  position :: Point
  orientation :: QuaternionMsg

record PoseWithCovariance =
  pose :: PoseMsg
  covariance :: "double list"

record TwistWithCovariance =
  twist_linear :: Vector3d
  twist_angular :: Vector3d
  twist_covariance :: "double list"

record Odometry =
  header_seq :: nat
  header_stamp :: nat
  header_frame_id :: string
  child_frame_id :: string
  odom_pose :: PoseWithCovariance
  odom_twist :: TwistWithCovariance


section \<open>Pose\<close>

text \<open>The members \<^verbatim>\<open>q_\<close>, \<^verbatim>\<open>t_\<close>, \<^verbatim>\<open>T_\<close> and \<^verbatim>\<open>td_\<close> of class \<^verbatim>\<open>Pose\<close>
  (a name cannot end in an underscore here, so each carries the prefix \<open>pose_\<close>).\<close>

record Pose =
  pose_q :: Quaterniond
  pose_t :: Vector3d
  pose_T :: Matrix4d
  pose_td :: double

text \<open>Modelled from the spec: the header \<^verbatim>\<open>pose.h\<close> is missing. It declares the
  default argument of the parameter \<^verbatim>\<open>td\<close> of the constructors, which the
  specification gives as zero: "\<open>(quaternion, translation, time_offset=0)\<close>".\<close>

definition td_default :: double where
  "td_default = Fin 0"

text \<open>Modelled from the spec: the header \<^verbatim>\<open>pose.h\<close> is missing. It declares the
  member \<^verbatim>\<open>td_\<close>, which the constructor from an odometry record never assigns: the
  time offset of the pose it makes is the value the declaration leaves in the member. The
  specification gives it as zero: "no time offset set (defaults to 0)".\<close>

definition td_unassigned :: double where
  "td_unassigned = Fin 0"

text \<open>\<^verbatim>\<open>Pose::Pose()\<close>\<close>

definition Pose_default :: Pose where
  "Pose_default =
     \<lparr>pose_q = Quaterniond_Identity, pose_t = Vector3d_Zero,
      pose_T = Matrix4d_Identity, pose_td = Fin 0\<rparr>"

text \<open>\<^verbatim>\<open>Pose::Pose(const Pose &)\<close>\<close>

definition Pose_copy :: "Pose \<Rightarrow> Pose" where
  "Pose_copy p =
     \<lparr>pose_q = pose_q p, pose_t = pose_t p, pose_T = pose_T p, pose_td = pose_td p\<rparr>"

text \<open>\<^verbatim>\<open>Pose::Pose(const Eigen::Quaterniond &q, const Eigen::Vector3d &t, const double &td)\<close>\<close>

definition Pose_q_t :: "Quaterniond \<Rightarrow> Vector3d \<Rightarrow> double \<Rightarrow> Pose" where
  "Pose_q_t q t td =
     (let q' = normalize_quat q
      in \<lparr>pose_q = q', pose_t = t,
          pose_T = set_topRightCorner
                     (set_topLeftCorner Matrix4d_Identity (toRotationMatrix q')) t,
          pose_td = td\<rparr>)"

text \<open>\<^verbatim>\<open>Pose::Pose(const Eigen::Matrix3d &R, const Eigen::Vector3d &t, const double &td)\<close>\<close>

definition Pose_R_t :: "Matrix3d \<Rightarrow> Vector3d \<Rightarrow> double \<Rightarrow> Pose" where
  "Pose_R_t R t td =
     \<lparr>pose_q = Quaterniond_of_matrix R, pose_t = t,
      pose_T = set_topRightCorner (set_topLeftCorner Matrix4d_Identity R) t,
      pose_td = td\<rparr>"

text \<open>\<^verbatim>\<open>Pose::Pose(const Eigen::Matrix4d &T, const double &td)\<close>\<close>

definition Pose_T :: "Matrix4d \<Rightarrow> double \<Rightarrow> Pose" where
  "Pose_T T td =
     \<lparr>pose_q = normalize_quat (Quaterniond_of_matrix (topLeftCorner T)),
      pose_t = topRightCorner T,
      pose_T = T,
      pose_td = td\<rparr>"

text \<open>\<^verbatim>\<open>Pose::Pose(const nav_msgs::Odometry &odom)\<close>. The body assigns \<^verbatim>\<open>q_\<close>,
  \<^verbatim>\<open>t_\<close> and \<^verbatim>\<open>T_\<close> and nothing else.\<close>

definition Pose_odom :: "Odometry \<Rightarrow> Pose" where
  "Pose_odom odom =
     (let q = Quaterniond
                (quat_w (orientation (pose (odom_pose odom))))
                (quat_x (orientation (pose (odom_pose odom))))
                (quat_y (orientation (pose (odom_pose odom))))
                (quat_z (orientation (pose (odom_pose odom))));
          t = Vector3d
                (point_x (position (pose (odom_pose odom))))
                (point_y (position (pose (odom_pose odom))))
                (point_z (position (pose (odom_pose odom))))
      in \<lparr>pose_q = q, pose_t = t,
          pose_T = set_topRightCorner
                     (set_topLeftCorner Matrix4d_Identity (toRotationMatrix q)) t,
          pose_td = td_unassigned\<rparr>)"

text \<open>\<^verbatim>\<open>Pose::poseTransform\<close>, \<^verbatim>\<open>Pose::inverse\<close> and \<^verbatim>\<open>Pose::operator *\<close>: each
  calls the constructor from a quaternion and a translation with two arguments, so
  \<^verbatim>\<open>td\<close> takes its default.\<close>

definition poseTransform :: "Pose \<Rightarrow> Pose \<Rightarrow> Pose" where
  "poseTransform pose1 pose2 =
     Pose_q_t (qmul (pose_q pose1) (pose_q pose2))
              (vadd (transformVector (pose_q pose1) (pose_t pose2)) (pose_t pose1))
              td_default"

definition inverse_pose :: "Pose \<Rightarrow> Pose" where
  "inverse_pose p =
     Pose_q_t (qinverse (pose_q p))
              (vneg (transformVector (qinverse (pose_q p)) (pose_t p)))
              td_default"

definition times_pose :: "Pose \<Rightarrow> Pose \<Rightarrow> Pose" where
  "times_pose this p =
     Pose_q_t (qmul (pose_q this) (pose_q p))
              (vadd (transformVector (pose_q this) (pose_t p)) (pose_t this))
              td_default"

text \<open>\<^verbatim>\<open>computeMeanPose\<close>. Each of the three loops runs over the whole array with its
  accumulators; the divisions by \<^verbatim>\<open>weight_total\<close> follow with no test of its value,
  and the result of the constructor is assigned to the output parameter
  \<^verbatim>\<open>pose_mean\<close>, which is the value returned here. The lines the second loop prints to
  \<^verbatim>\<open>std::cout\<close> are not part of the model.\<close>

fun sum_weight :: "(double \<times> Pose) list \<Rightarrow> double \<Rightarrow> double" where
  "sum_weight [] weight_total = weight_total"
| "sum_weight ((wt, p) # rest) weight_total = sum_weight rest (weight_total + wt)"

fun sum_translation :: "(double \<times> Pose) list \<Rightarrow> Vector3d \<Rightarrow> Vector3d" where
  "sum_translation [] t_mean = t_mean"
| "sum_translation ((wt, p) # rest) t_mean =
     sum_translation rest (vadd t_mean (vscale wt (pose_t p)))"

fun sum_rotation ::
  "(double \<times> Pose) list \<Rightarrow> double \<times> double \<times> double \<times> double
     \<Rightarrow> double \<times> double \<times> double \<times> double" where
  "sum_rotation [] (x, y, z, w) = (x, y, z, w)"
| "sum_rotation ((wt, p) # rest) (x, y, z, w) =
     sum_rotation rest
       (x + wt * qx (pose_q p), y + wt * qy (pose_q p),
        z + wt * qz (pose_q p), w + wt * qw (pose_q p))"

definition computeMeanPose :: "(double \<times> Pose) list \<Rightarrow> Pose" where
  "computeMeanPose pose_array =
     (let weight_total = sum_weight pose_array (Fin 0);
          t_mean = vdiv (sum_translation pose_array Vector3d_Zero) weight_total;
          (x, y, z, w) = sum_rotation pose_array (Fin 0, Fin 0, Fin 0, Fin 0);
          q_mean = Quaterniond (w / weight_total) (x / weight_total)
                               (y / weight_total) (z / weight_total)
      in Pose_q_t q_mean t_mean td_default)"


section \<open>Well-formed values\<close>

text \<open>The invariant of the data model: the rotation of a pose is a unit quaternion.
  A squared norm equal to one makes the four coefficients finite.\<close>

definition unit_quat :: "Quaterniond \<Rightarrow> bool" where
  "unit_quat q = (squaredNorm q = Fin 1)"

definition finite_quat :: "Quaterniond \<Rightarrow> bool" where
  "finite_quat q = (isfinite (qw q) \<and> isfinite (qx q) \<and> isfinite (qy q) \<and> isfinite (qz q))"

definition finite_vec :: "Vector3d \<Rightarrow> bool" where
  "finite_vec v = (isfinite (vx v) \<and> isfinite (vy v) \<and> isfinite (vz v))"

definition valid_pose :: "Pose \<Rightarrow> bool" where
  "valid_pose p = (unit_quat (pose_q p) \<and> finite_vec (pose_t p))"

text \<open>The homogeneous matrix \<open>[R(q) | t; 0 0 0 1]\<close> of a rotation and a translation, and
  the consistency of the cached matrix of a pose with its two canonical members.\<close>

definition transform_of :: "Quaterniond \<Rightarrow> Vector3d \<Rightarrow> Matrix4d" where
  "transform_of q t =
     set_topRightCorner (set_topLeftCorner Matrix4d_Identity (toRotationMatrix q)) t"

definition cache_consistent :: "Pose \<Rightarrow> bool" where
  "cache_consistent p =
     (topLeftCorner (pose_T p) = toRotationMatrix (pose_q p)
      \<and> topRightCorner (pose_T p) = pose_t p
      \<and> bottomRow (pose_T p) = Vector4d (Fin 0) (Fin 0) (Fin 0) (Fin 1))"

text \<open>A quaternion with a \<open>NaN\<close> coefficient.\<close>

definition has_nan :: "Quaterniond \<Rightarrow> bool" where
  "has_nan q = (qw q = NaN \<or> qx q = NaN \<or> qy q = NaN \<or> qz q = NaN)"


section \<open>Concrete inputs\<close>

text \<open>An odometry record with the orientation \<open>(x, y, z, w) = (0, 0, 0, ow)\<close>, the
  position \<open>(1, 2, 3)\<close> and the time stamp \<open>stamp\<close>.\<close>

definition odom_example :: "double \<Rightarrow> nat \<Rightarrow> Odometry" where
  "odom_example ow stamp =
     \<lparr>header_seq = 0, header_stamp = stamp, header_frame_id = ''world'',
      child_frame_id = ''laser'',
      odom_pose = \<lparr>pose = \<lparr>position = \<lparr>point_x = Fin 1, point_y = Fin 2, point_z = Fin 3\<rparr>,
                            orientation = \<lparr>quat_x = Fin 0, quat_y = Fin 0, quat_z = Fin 0,
                                           quat_w = ow\<rparr>\<rparr>,
                   covariance = []\<rparr>,
      odom_twist = \<lparr>twist_linear = Vector3d_Zero, twist_angular = Vector3d_Zero,
                    twist_covariance = []\<rparr>\<rparr>"

text \<open>An odometry record whose orientation is a half turn about the x axis scaled by
  two, \<open>(x, y, z, w) = (2, 0, 0, 0)\<close>, at the position zero.\<close>

definition odom_scaled_half_turn :: Odometry where
  "odom_scaled_half_turn =
     \<lparr>header_seq = 0, header_stamp = 0, header_frame_id = ''world'',
      child_frame_id = ''laser'',
      odom_pose = \<lparr>pose = \<lparr>position = \<lparr>point_x = Fin 0, point_y = Fin 0, point_z = Fin 0\<rparr>,
                            orientation = \<lparr>quat_x = Fin 2, quat_y = Fin 0, quat_z = Fin 0,
                                           quat_w = Fin 0\<rparr>\<rparr>,
                   covariance = []\<rparr>,
      odom_twist = \<lparr>twist_linear = Vector3d_Zero, twist_angular = Vector3d_Zero,
                    twist_covariance = []\<rparr>\<rparr>"

text \<open>The identity matrix scaled by five, alone and as the rotation block of a
  homogeneous matrix with zero translation.\<close>

definition R_scaled :: Matrix3d where
  "R_scaled = Matrix3d (Vector3d (Fin 5) (Fin 0) (Fin 0))
                       (Vector3d (Fin 0) (Fin 5) (Fin 0))
                       (Vector3d (Fin 0) (Fin 0) (Fin 5))"

definition T_scaled :: Matrix4d where
  "T_scaled = Matrix4d (Vector4d (Fin 5) (Fin 0) (Fin 0) (Fin 0))
                       (Vector4d (Fin 0) (Fin 5) (Fin 0) (Fin 0))
                       (Vector4d (Fin 0) (Fin 0) (Fin 5) (Fin 0))
                       (Vector4d (Fin 0) (Fin 0) (Fin 0) (Fin 1))"

text \<open>Three poses made by the constructor from a quaternion and a translation: half
  turns about the x axis and the y axis, and a pure translation.\<close>

definition pose_half_turn_x :: Pose where
  "pose_half_turn_x =
     Pose_q_t (Quaterniond (Fin 0) (Fin 1) (Fin 0) (Fin 0)) (Vector3d (Fin 1) (Fin 0) (Fin 0))
       (Fin 0)"

definition pose_half_turn_y :: Pose where
  "pose_half_turn_y =
     Pose_q_t (Quaterniond (Fin 0) (Fin 0) (Fin 1) (Fin 0)) (Vector3d (Fin 0) (Fin 1) (Fin 0))
       (Fin 0)"

definition pose_shift :: "real \<Rightarrow> Pose" where
  "pose_shift a = Pose_q_t Quaterniond_Identity (Vector3d (Fin a) (Fin 0) (Fin 0)) (Fin 0)"

definition pose_shift_y :: Pose where
  "pose_shift_y = Pose_q_t Quaterniond_Identity (Vector3d (Fin 0) (Fin 1) (Fin 0)) (Fin 0)"


section \<open>Auxiliary facts\<close>

subsection \<open>Finite scalars and unit quaternions\<close>

lemma Fin_minus [simp]: "Fin a - Fin b = Fin (a - b)" by (simp add: minus_double_def)

lemma plus_NaN_right [simp]: "a + NaN = (NaN :: double)"
  by (cases a) simp_all

lemma times_NaN_right [simp]: "a * NaN = (NaN :: double)"
  by (cases a) simp_all

lemma less_NaN_right [simp]: "\<not> a < (NaN :: double)"
  by (cases a) simp_all

lemma inf_signed_not_finite: "\<not> isfinite (inf_signed a)"
  by (simp add: inf_signed_def)

lemma inf_signed_square: "inf_signed a * inf_signed a = (if a = 0 then NaN else PInf)"
  by (simp add: inf_signed_def)

lemma inf_signed_over_PInf: "inf_signed a / PInf = NaN"
  by (simp add: inf_signed_def)

lemma plus_FinD: "a + b = Fin c \<Longrightarrow> \<exists>a' b'. a = Fin a' \<and> b = Fin b' \<and> c = a' + b'"
  by (cases a; cases b; simp)

lemma times_self_FinD: "a * a = Fin c \<Longrightarrow> \<exists>a'. a = Fin a' \<and> c = a' * a'"
  by (cases a; simp)

lemma isfiniteE: assumes "isfinite a" obtains r where "a = Fin r"
  using assms by (cases a) simp_all

lemma finite_vecE:
  assumes "finite_vec v"
  obtains a b c where "v = Vector3d (Fin a) (Fin b) (Fin c)"
proof -
  from assms have "isfinite (vx v)" "isfinite (vy v)" "isfinite (vz v)"
    by (simp_all add: finite_vec_def)
  then obtain a b c where "vx v = Fin a" "vy v = Fin b" "vz v = Fin c"
    by (elim isfiniteE)
  then have "v = Vector3d (Fin a) (Fin b) (Fin c)" by (cases v) simp
  then show ?thesis by (rule that)
qed

lemma finite_quatE:
  assumes "finite_quat q"
  obtains w x y z where "q = Quaterniond (Fin w) (Fin x) (Fin y) (Fin z)"
proof -
  from assms have "isfinite (qw q)" "isfinite (qx q)" "isfinite (qy q)" "isfinite (qz q)"
    by (simp_all add: finite_quat_def)
  then obtain w x y z where "qw q = Fin w" "qx q = Fin x" "qy q = Fin y" "qz q = Fin z"
    by (elim isfiniteE)
  then have "q = Quaterniond (Fin w) (Fin x) (Fin y) (Fin z)" by (cases q) simp
  then show ?thesis by (rule that)
qed

lemma unit_quatE:
  assumes "unit_quat q"
  obtains w x y z where "q = Quaterniond (Fin w) (Fin x) (Fin y) (Fin z)" "x*x + y*y + z*z + w*w = 1"
proof -
  from assms have s: "qx q * qx q + qy q * qy q + qz q * qz q + qw q * qw q = Fin 1"
    by (simp add: unit_quat_def squaredNorm_def)
  from plus_FinD [OF s] obtain s3 w2 where a: "qx q * qx q + qy q * qy q + qz q * qz q = Fin s3" "qw q * qw q = Fin w2" "1 = s3 + w2"
    by blast
  from plus_FinD [OF a(1)] obtain s2 z2 where b: "qx q * qx q + qy q * qy q = Fin s2" "qz q * qz q = Fin z2" "s3 = s2 + z2"
    by blast
  from plus_FinD [OF b(1)] obtain x2 y2 where c: "qx q * qx q = Fin x2" "qy q * qy q = Fin y2" "s2 = x2 + y2"
    by blast
  from times_self_FinD [OF c(1)] obtain x where x: "qx q = Fin x" "x2 = x * x" by blast
  from times_self_FinD [OF c(2)] obtain y where y: "qy q = Fin y" "y2 = y * y" by blast
  from times_self_FinD [OF b(2)] obtain z where z: "qz q = Fin z" "z2 = z * z" by blast
  from times_self_FinD [OF a(2)] obtain w where w: "qw q = Fin w" "w2 = w * w" by blast
  have "q = Quaterniond (Fin w) (Fin x) (Fin y) (Fin z)"
    using x y z w by (cases q) simp
  moreover have "x*x + y*y + z*z + w*w = 1" using a b c x y z w by simp
  ultimately show ?thesis by (rule that)
qed

lemma unit_quat_Fin [simp]:
  "unit_quat (Quaterniond (Fin w) (Fin x) (Fin y) (Fin z)) \<longleftrightarrow> x*x + y*y + z*z + w*w = 1"
  by (simp add: unit_quat_def squaredNorm_def)

lemma normalize_quat_unit: "unit_quat q \<Longrightarrow> normalize_quat q = q"
  by (erule unit_quatE) (simp add: normalize_quat_def squaredNorm_def Let_def)

lemma qmul_Fin [simp]:
  "qmul (Quaterniond (Fin wa) (Fin xa) (Fin ya) (Fin za)) (Quaterniond (Fin wb) (Fin xb) (Fin yb) (Fin zb)) =
   Quaterniond (Fin (wa * wb - xa * xb - ya * yb - za * zb))
     (Fin (wa * xb + xa * wb + ya * zb - za * yb))
     (Fin (wa * yb + ya * wb + za * xb - xa * zb))
     (Fin (wa * zb + za * wb + xa * yb - ya * xb))"
  by (simp add: qmul_def)

lemma unit_quat_qmul: assumes "unit_quat a" "unit_quat b" shows "unit_quat (qmul a b)"
proof -
  from assms(1) obtain wa xa ya za where a: "a = Quaterniond (Fin wa) (Fin xa) (Fin ya) (Fin za)" "xa*xa + ya*ya + za*za + wa*wa = 1"
    by (rule unit_quatE)
  from assms(2) obtain wb xb yb zb where b: "b = Quaterniond (Fin wb) (Fin xb) (Fin yb) (Fin zb)" "xb*xb + yb*yb + zb*zb + wb*wb = 1"
    by (rule unit_quatE)
  have "(wa * xb + xa * wb + ya * zb - za * yb) * (wa * xb + xa * wb + ya * zb - za * yb)
      + (wa * yb + ya * wb + za * xb - xa * zb) * (wa * yb + ya * wb + za * xb - xa * zb)
      + (wa * zb + za * wb + xa * yb - ya * xb) * (wa * zb + za * wb + xa * yb - ya * xb)
      + (wa * wb - xa * xb - ya * yb - za * zb) * (wa * wb - xa * xb - ya * yb - za * zb)
      = (xa*xa + ya*ya + za*za + wa*wa) * (xb*xb + yb*yb + zb*zb + wb*wb)"
    by (simp add: algebra_simps)
  then show ?thesis using a b by simp
qed

lemma pose_q_Pose_q_t: "unit_quat q \<Longrightarrow> pose_q (Pose_q_t q t td) = q"
  by (simp add: Pose_q_t_def Let_def normalize_quat_unit)

lemma pose_t_Pose_q_t [simp]: "pose_t (Pose_q_t q t td) = t"
  by (simp add: Pose_q_t_def Let_def)

lemma pose_td_Pose_q_t [simp]: "pose_td (Pose_q_t q t td) = td"
  by (simp add: Pose_q_t_def Let_def)

subsection \<open>Rotating a vector, multiplying quaternions\<close>

lemma transformVector_finite:
  "finite_vec (transformVector (Quaterniond (Fin w) (Fin x) (Fin y) (Fin z)) (Vector3d (Fin a) (Fin b) (Fin c)))"
  by (simp add: transformVector_def Let_def finite_vec_def)

lemma transformVector_qmul:
  assumes "unit_quat a" "unit_quat b" "finite_vec v"
  shows "transformVector (qmul a b) v = transformVector a (transformVector b v)"
proof -
  from assms(1) obtain wa xa ya za where a: "a = Quaterniond (Fin wa) (Fin xa) (Fin ya) (Fin za)"
    and na: "xa*xa + ya*ya + za*za + wa*wa = 1"
    by (rule unit_quatE)
  from assms(2) obtain wb xb yb zb where b: "b = Quaterniond (Fin wb) (Fin xb) (Fin yb) (Fin zb)"
    and nb: "xb*xb + yb*yb + zb*zb + wb*wb = 1"
    by (rule unit_quatE)
  from assms(3) obtain v1 v2 v3 where v: "v = Vector3d (Fin v1) (Fin v2) (Fin v3)"
    by (rule finite_vecE)
  show ?thesis
    unfolding a b v
    apply (simp add: transformVector_def Let_def)
    apply (intro conjI)
    using na nb apply algebra
    using na nb apply algebra
    using na nb apply algebra
    done
qed

lemma transformVector_vadd:
  assumes "finite_quat q" "finite_vec u" "finite_vec v"
  shows "transformVector q (vadd u v) = vadd (transformVector q u) (transformVector q v)"
proof -
  from assms(1) obtain w x y z where q: "q = Quaterniond (Fin w) (Fin x) (Fin y) (Fin z)"
    by (rule finite_quatE)
  from assms(2) obtain u1 u2 u3 where u: "u = Vector3d (Fin u1) (Fin u2) (Fin u3)"
    by (rule finite_vecE)
  from assms(3) obtain v1 v2 v3 where v: "v = Vector3d (Fin v1) (Fin v2) (Fin v3)"
    by (rule finite_vecE)
  show ?thesis
    unfolding q u v by (simp add: transformVector_def Let_def algebra_simps)
qed

lemma unit_quat_finite: "unit_quat q \<Longrightarrow> finite_quat q"
  by (erule unit_quatE) (simp add: finite_quat_def)

lemma transformVector_finite_vec:
  assumes "finite_quat q" "finite_vec v" shows "finite_vec (transformVector q v)"
proof -
  from assms(1) obtain w x y z where q: "q = Quaterniond (Fin w) (Fin x) (Fin y) (Fin z)"
    by (rule finite_quatE)
  from assms(2) obtain v1 v2 v3 where v: "v = Vector3d (Fin v1) (Fin v2) (Fin v3)"
    by (rule finite_vecE)
  show ?thesis unfolding q v by (rule transformVector_finite)
qed

lemma vadd_assoc:
  assumes "finite_vec a" "finite_vec b" "finite_vec c"
  shows "vadd (vadd a b) c = vadd a (vadd b c)"
proof -
  from assms(1) obtain a1 a2 a3 where a: "a = Vector3d (Fin a1) (Fin a2) (Fin a3)" by (rule finite_vecE)
  from assms(2) obtain b1 b2 b3 where b: "b = Vector3d (Fin b1) (Fin b2) (Fin b3)" by (rule finite_vecE)
  from assms(3) obtain c1 c2 c3 where c: "c = Vector3d (Fin c1) (Fin c2) (Fin c3)" by (rule finite_vecE)
  show ?thesis unfolding a b c by simp
qed

lemma qmul_assoc:
  assumes "finite_quat a" "finite_quat b" "finite_quat c"
  shows "qmul (qmul a b) c = qmul a (qmul b c)"
proof -
  from assms(1) obtain wa xa ya za where a: "a = Quaterniond (Fin wa) (Fin xa) (Fin ya) (Fin za)"
    by (rule finite_quatE)
  from assms(2) obtain wb xb yb zb where b: "b = Quaterniond (Fin wb) (Fin xb) (Fin yb) (Fin zb)"
    by (rule finite_quatE)
  from assms(3) obtain wc xc yc zc where c: "c = Quaterniond (Fin wc) (Fin xc) (Fin yc) (Fin zc)"
    by (rule finite_quatE)
  show ?thesis unfolding a b c by (simp add: algebra_simps)
qed

lemma qinverse_unit: "unit_quat q \<Longrightarrow> qinverse q = conjugate q"
  by (erule unit_quatE) (simp add: qinverse_def conjugate_def squaredNorm_def Let_def)

lemma unit_quat_conjugate: "unit_quat q \<Longrightarrow> unit_quat (conjugate q)"
  by (erule unit_quatE) (simp add: conjugate_def)

lemma normalize_quat_unit_norm:
  assumes "finite_quat q" and "squaredNorm q \<noteq> Fin 0"
  shows "unit_quat (normalize_quat q)"
proof -
  from assms(1) obtain w x y z where q: "q = Quaterniond (Fin w) (Fin x) (Fin y) (Fin z)"
    by (rule finite_quatE)
  define n where "n = x*x + y*y + z*z + w*w"
  from assms(2) have "n \<noteq> 0" by (simp add: q squaredNorm_def n_def)
  moreover have "0 \<le> n" by (simp add: n_def)
  ultimately have p: "0 < n" by simp
  then have s: "sqrt n \<noteq> 0" "\<not> n < 0" by simp_all
  have ss: "sqrt n * sqrt n = n" using p by simp
  have d: "(a / sqrt n) * (a / sqrt n) = a * a / n" for a
    using ss by simp
  have "a / n + b / n + c / n + e / n = (a + b + c + e) / n" for a b c e :: real
    by (simp add: add_divide_distrib)
  then have "x * x / n + y * y / n + z * z / n + w * w / n = n / n"
    unfolding n_def by blast
  then have e: "(x / sqrt n) * (x / sqrt n) + (y / sqrt n) * (y / sqrt n)
      + (z / sqrt n) * (z / sqrt n) + (w / sqrt n) * (w / sqrt n) = 1"
    unfolding d using p by simp
  have "normalize_quat q = Quaterniond (Fin (w / sqrt n)) (Fin (x / sqrt n)) (Fin (y / sqrt n)) (Fin (z / sqrt n))"
    using p s by (simp add: q normalize_quat_def squaredNorm_def Let_def n_def [symmetric])
  then show ?thesis using e by simp
qed

subsection \<open>The quaternion of a matrix\<close>

text \<open>The four ways through \<open>Quaterniond_of_matrix\<close> on a matrix of finite
  coefficients: a positive trace, and the largest diagonal coefficient at index 0, 1
  or 2. In each the argument of the square root is positive.\<close>

lemma toRotationMatrix_Fin:
  "toRotationMatrix (Quaterniond (Fin w) (Fin x) (Fin y) (Fin z)) =
   Matrix3d (Vector3d (Fin (1 - (2*y*y + 2*z*z))) (Fin (2*y*x - 2*z*w)) (Fin (2*z*x + 2*y*w)))
            (Vector3d (Fin (2*y*x + 2*z*w)) (Fin (1 - (2*x*x + 2*z*z))) (Fin (2*z*y - 2*x*w)))
            (Vector3d (Fin (2*z*x - 2*y*w)) (Fin (2*z*y + 2*x*w)) (Fin (1 - (2*x*x + 2*y*y))))"
  by (simp add: toRotationMatrix_def Let_def)

lemma Quaterniond_of_matrix_trace_pos:
  assumes "0 < m00 + m11 + m22"
  shows "Quaterniond_of_matrix
           (Matrix3d (Vector3d (Fin m00) (Fin m01) (Fin m02))
                     (Vector3d (Fin m10) (Fin m11) (Fin m12))
                     (Vector3d (Fin m20) (Fin m21) (Fin m22))) =
         Quaterniond (Fin (1/2 * sqrt (m00 + m11 + m22 + 1)))
                     (Fin ((m21 - m12) * (1/2 / sqrt (m00 + m11 + m22 + 1))))
                     (Fin ((m02 - m20) * (1/2 / sqrt (m00 + m11 + m22 + 1))))
                     (Fin ((m10 - m01) * (1/2 / sqrt (m00 + m11 + m22 + 1))))"
proof -
  from assms have p: "0 < m00 + m11 + m22 + 1" by simp
  then have s: "sqrt (m00 + m11 + m22 + 1) \<noteq> 0" by simp
  from p have n: "\<not> m00 + m11 + m22 + 1 < 0" by simp
  show ?thesis
    using assms s n by (simp add: Quaterniond_of_matrix_def trace_def Let_def)
qed

lemma Quaterniond_of_matrix_i0:
  assumes "\<not> 0 < m00 + m11 + m22" "\<not> m00 < m11" "\<not> m00 < m22"
  shows "Quaterniond_of_matrix
           (Matrix3d (Vector3d (Fin m00) (Fin m01) (Fin m02))
                     (Vector3d (Fin m10) (Fin m11) (Fin m12))
                     (Vector3d (Fin m20) (Fin m21) (Fin m22))) =
         Quaterniond (Fin ((m21 - m12) * (1/2 / sqrt (m00 - m11 - m22 + 1))))
                     (Fin (1/2 * sqrt (m00 - m11 - m22 + 1)))
                     (Fin ((m10 + m01) * (1/2 / sqrt (m00 - m11 - m22 + 1))))
                     (Fin ((m20 + m02) * (1/2 / sqrt (m00 - m11 - m22 + 1))))"
proof -
  from assms have p: "0 < m00 - m11 - m22 + 1" by linarith
  then have s: "sqrt (m00 - m11 - m22 + 1) \<noteq> 0" by simp
  from p have n: "\<not> m00 - m11 - m22 + 1 < 0" by simp
  show ?thesis
    using assms s n
    by (simp add: Quaterniond_of_matrix_def trace_def Let_def quat_of_coeffs_def)
qed

lemma Quaterniond_of_matrix_i1:
  assumes "\<not> 0 < m00 + m11 + m22" "m00 < m11" "\<not> m11 < m22"
  shows "Quaterniond_of_matrix
           (Matrix3d (Vector3d (Fin m00) (Fin m01) (Fin m02))
                     (Vector3d (Fin m10) (Fin m11) (Fin m12))
                     (Vector3d (Fin m20) (Fin m21) (Fin m22))) =
         Quaterniond (Fin ((m02 - m20) * (1/2 / sqrt (m11 - m22 - m00 + 1))))
                     (Fin ((m01 + m10) * (1/2 / sqrt (m11 - m22 - m00 + 1))))
                     (Fin (1/2 * sqrt (m11 - m22 - m00 + 1)))
                     (Fin ((m21 + m12) * (1/2 / sqrt (m11 - m22 - m00 + 1))))"
proof -
  from assms have p: "0 < m11 - m22 - m00 + 1" by linarith
  then have s: "sqrt (m11 - m22 - m00 + 1) \<noteq> 0" by simp
  from p have n: "\<not> m11 - m22 - m00 + 1 < 0" by simp
  show ?thesis
    using assms s n
    by (simp add: Quaterniond_of_matrix_def trace_def Let_def quat_of_coeffs_def)
qed

lemma Quaterniond_of_matrix_i2:
  assumes "\<not> 0 < m00 + m11 + m22" "if m00 < m11 then m11 < m22 else m00 < m22"
  shows "Quaterniond_of_matrix
           (Matrix3d (Vector3d (Fin m00) (Fin m01) (Fin m02))
                     (Vector3d (Fin m10) (Fin m11) (Fin m12))
                     (Vector3d (Fin m20) (Fin m21) (Fin m22))) =
         Quaterniond (Fin ((m10 - m01) * (1/2 / sqrt (m22 - m00 - m11 + 1))))
                     (Fin ((m02 + m20) * (1/2 / sqrt (m22 - m00 - m11 + 1))))
                     (Fin ((m12 + m21) * (1/2 / sqrt (m22 - m00 - m11 + 1))))
                     (Fin (1/2 * sqrt (m22 - m00 - m11 + 1)))"
proof -
  from assms have p: "0 < m22 - m00 - m11 + 1" by (auto split: if_splits)
  then have s: "sqrt (m22 - m00 - m11 + 1) \<noteq> 0" by simp
  from p have n: "\<not> m22 - m00 - m11 + 1 < 0" by simp
  show ?thesis
    using assms s n
    by (auto simp add: Quaterniond_of_matrix_def trace_def Let_def quat_of_coeffs_def split: if_splits)
qed


lemma sqrt_four_sq: "sqrt (4 * (a * a)) = 2 * \<bar>a::real\<bar>"
proof -
  have "sqrt (4 * (a * a)) = sqrt ((2 * a) * (2 * a))" by (simp add: algebra_simps)
  also have "\<dots> = \<bar>2 * a\<bar>" by (rule real_sqrt_abs2)
  finally show ?thesis by (simp add: abs_mult)
qed

lemma abs_as_sign: "(a::real) \<noteq> 0 \<Longrightarrow> \<exists>s. (s = 1 \<or> s = -1) \<and> \<bar>a\<bar> = s * a"
  by (cases "0 < a") (auto intro: exI [of _ 1] exI [of _ "-1"])

lemma shoemake_rotation:
  fixes w x y z :: real
  assumes n: "x*x + y*y + z*z + w*w = 1"
    and m: "m00 = 1 - (2*y*y + 2*z*z)" "m01 = 2*y*x - 2*z*w" "m02 = 2*z*x + 2*y*w"
           "m10 = 2*y*x + 2*z*w" "m11 = 1 - (2*x*x + 2*z*z)" "m12 = 2*z*y - 2*x*w"
           "m20 = 2*z*x - 2*y*w" "m21 = 2*z*y + 2*x*w" "m22 = 1 - (2*x*x + 2*y*y)"
  shows "\<exists>s. (s = 1 \<or> s = -1) \<and>
           Quaterniond_of_matrix
             (Matrix3d (Vector3d (Fin m00) (Fin m01) (Fin m02))
                       (Vector3d (Fin m10) (Fin m11) (Fin m12))
                       (Vector3d (Fin m20) (Fin m21) (Fin m22)))
           = Quaterniond (Fin (s * w)) (Fin (s * x)) (Fin (s * y)) (Fin (s * z))"
proof -
  let ?Q = "Quaterniond_of_matrix
             (Matrix3d (Vector3d (Fin m00) (Fin m01) (Fin m02))
                       (Vector3d (Fin m10) (Fin m11) (Fin m12))
                       (Vector3d (Fin m20) (Fin m21) (Fin m22)))"
  have tr: "m00 + m11 + m22 + 1 = 4 * (w * w)" using n m by algebra
  have e0: "m00 - m11 - m22 + 1 = 4 * (x * x)" using m by algebra
  have e1: "m11 - m22 - m00 + 1 = 4 * (y * y)" using m by algebra
  have e2: "m22 - m00 - m11 + 1 = 4 * (z * z)" using m by algebra
  note sgn = abs_as_sign
  consider (A) "0 < m00 + m11 + m22"
    | (B0) "\<not> 0 < m00 + m11 + m22" "\<not> m00 < m11" "\<not> m00 < m22"
    | (B1) "\<not> 0 < m00 + m11 + m22" "m00 < m11" "\<not> m11 < m22"
    | (B2) "\<not> 0 < m00 + m11 + m22" "if m00 < m11 then m11 < m22 else m00 < m22"
    by (cases "0 < m00 + m11 + m22"; cases "m00 < m11"; cases "m11 < m22"; cases "m00 < m22") auto
  then show ?thesis
  proof cases
    case A
    from A tr have "w \<noteq> 0" by auto
    from sgn [OF this] obtain s where s: "s = 1 \<or> s = -1" "\<bar>w\<bar> = s * w" by blast
    have sq: "sqrt (m00 + m11 + m22 + 1) = 2 * \<bar>w\<bar>" by (simp add: tr sqrt_four_sq)
    have d: "m21 - m12 = 4 * (x * w)" "m02 - m20 = 4 * (y * w)" "m10 - m01 = 4 * (z * w)"
      using m by simp_all
    have "?Q = Quaterniond (Fin (s * w)) (Fin (s * x)) (Fin (s * y)) (Fin (s * z))"
      unfolding Quaterniond_of_matrix_trace_pos [OF A] sq d
      using s \<open>w \<noteq> 0\<close> by (auto simp add: field_simps)
    with s(1) show ?thesis by blast
  next
    case B0
    have "0 < m00 - m11 - m22 + 1" using B0 by linarith
    with e0 have "x \<noteq> 0" by auto
    from sgn [OF this] obtain s where s: "s = 1 \<or> s = -1" "\<bar>x\<bar> = s * x" by blast
    have sq: "sqrt (m00 - m11 - m22 + 1) = 2 * \<bar>x\<bar>" by (simp add: e0 sqrt_four_sq)
    have d: "m21 - m12 = 4 * (x * w)" "m10 + m01 = 4 * (x * y)" "m20 + m02 = 4 * (x * z)"
      using m by simp_all
    have "?Q = Quaterniond (Fin (s * w)) (Fin (s * x)) (Fin (s * y)) (Fin (s * z))"
      unfolding Quaterniond_of_matrix_i0 [OF B0] sq d
      using s \<open>x \<noteq> 0\<close> by (auto simp add: field_simps)
    with s(1) show ?thesis by blast
  next
    case B1
    have "0 < m11 - m22 - m00 + 1" using B1 by linarith
    with e1 have "y \<noteq> 0" by auto
    from sgn [OF this] obtain s where s: "s = 1 \<or> s = -1" "\<bar>y\<bar> = s * y" by blast
    have sq: "sqrt (m11 - m22 - m00 + 1) = 2 * \<bar>y\<bar>" by (simp add: e1 sqrt_four_sq)
    have d: "m02 - m20 = 4 * (y * w)" "m01 + m10 = 4 * (y * x)" "m21 + m12 = 4 * (y * z)"
      using m by simp_all
    have "?Q = Quaterniond (Fin (s * w)) (Fin (s * x)) (Fin (s * y)) (Fin (s * z))"
      unfolding Quaterniond_of_matrix_i1 [OF B1] sq d
      using s \<open>y \<noteq> 0\<close> by (auto simp add: field_simps)
    with s(1) show ?thesis by blast
  next
    case B2
    have "0 < m22 - m00 - m11 + 1" using B2 by (auto split: if_splits)
    with e2 have "z \<noteq> 0" by auto
    from sgn [OF this] obtain s where s: "s = 1 \<or> s = -1" "\<bar>z\<bar> = s * z" by blast
    have sq: "sqrt (m22 - m00 - m11 + 1) = 2 * \<bar>z\<bar>" by (simp add: e2 sqrt_four_sq)
    have d: "m10 - m01 = 4 * (z * w)" "m02 + m20 = 4 * (z * x)" "m12 + m21 = 4 * (z * y)"
      using m by simp_all
    have "?Q = Quaterniond (Fin (s * w)) (Fin (s * x)) (Fin (s * y)) (Fin (s * z))"
      unfolding Quaterniond_of_matrix_i2 [OF B2] sq d
      using s \<open>z \<noteq> 0\<close> by (auto simp add: field_simps)
    with s(1) show ?thesis by blast
  qed
qed

lemma toRotationMatrix_neg:
  "s = 1 \<or> s = -1 \<Longrightarrow>
   toRotationMatrix (Quaterniond (Fin (s * w)) (Fin (s * x)) (Fin (s * y)) (Fin (s * z)))
   = toRotationMatrix (Quaterniond (Fin w) (Fin x) (Fin y) (Fin z))"
  by (auto simp add: toRotationMatrix_Fin)

lemma Quaterniond_of_matrix_rotation:
  assumes "unit_quat r"
  shows "toRotationMatrix (Quaterniond_of_matrix (toRotationMatrix r)) = toRotationMatrix r
       \<and> unit_quat (Quaterniond_of_matrix (toRotationMatrix r))"
proof -
  from assms obtain w x y z where r: "r = Quaterniond (Fin w) (Fin x) (Fin y) (Fin z)"
    and n: "x*x + y*y + z*z + w*w = 1"
    by (rule unit_quatE)
  from shoemake_rotation [OF n refl refl refl refl refl refl refl refl refl]
  obtain s where s: "s = 1 \<or> s = -1"
    and q: "Quaterniond_of_matrix (toRotationMatrix r)
            = Quaterniond (Fin (s * w)) (Fin (s * x)) (Fin (s * y)) (Fin (s * z))"
    unfolding r toRotationMatrix_Fin by blast
  have "toRotationMatrix (Quaterniond_of_matrix (toRotationMatrix r)) = toRotationMatrix r"
    unfolding q using toRotationMatrix_neg [OF s] by (simp add: r)
  moreover have "unit_quat (Quaterniond_of_matrix (toRotationMatrix r))"
    unfolding q using s n by auto
  ultimately show ?thesis by simp
qed

lemma blocks_of_set:
  "topLeftCorner (set_topRightCorner (set_topLeftCorner Matrix4d_Identity R) t) = R"
  "topRightCorner (set_topRightCorner (set_topLeftCorner Matrix4d_Identity R) t) = t"
  "bottomRow (set_topRightCorner (set_topLeftCorner Matrix4d_Identity R) t)
     = Vector4d (Fin 0) (Fin 0) (Fin 0) (Fin 1)"
  by (cases R rule: Matrix3d.exhaust; cases "row0 R"; cases "row1 R"; cases "row2 R"; cases t;
      simp add: Matrix4d_Identity_def)+

lemma blocks_of_transform:
  "topLeftCorner (transform_of q t) = toRotationMatrix q"
  "topRightCorner (transform_of q t) = t"
  "bottomRow (transform_of q t) = Vector4d (Fin 0) (Fin 0) (Fin 0) (Fin 1)"
  by (simp_all add: transform_of_def blocks_of_set)

lemma sqrt_16: "sqrt 16 = 4"
  by (rule real_sqrt_unique) simp_all

subsection \<open>The loops of computeMeanPose\<close>

lemma sum_rotation_td:
  "sum_rotation (map (\<lambda>(wt, p). (wt, p\<lparr>pose_td := f p\<rparr>)) xs) acc = sum_rotation xs acc"
  by (induction xs acc rule: sum_rotation.induct) simp_all

lemma sum_translation_td:
  "sum_translation (map (\<lambda>(wt, p). (wt, p\<lparr>pose_td := f p\<rparr>)) xs) acc = sum_translation xs acc"
  by (induction xs acc rule: sum_translation.induct) simp_all

lemma sum_weight_td:
  "sum_weight (map (\<lambda>(wt, p). (wt, p\<lparr>pose_td := f p\<rparr>)) xs) acc = sum_weight xs acc"
  by (induction xs acc rule: sum_weight.induct) simp_all

lemma sum_weight_zero:
  "\<forall>(wt, p) \<in> set xs. wt = Fin 0 \<Longrightarrow> sum_weight xs (Fin 0) = Fin 0"
  by (induction xs) auto

lemma sum_translation_zero:
  "\<forall>(wt, p) \<in> set xs. wt = Fin 0 \<and> finite_vec (pose_t p)
   \<Longrightarrow> sum_translation xs (Vector3d (Fin 0) (Fin 0) (Fin 0)) = Vector3d (Fin 0) (Fin 0) (Fin 0)"
proof (induction xs)
  case Nil
  show ?case by simp
next
  case (Cons a xs)
  obtain wt p where a: "a = (wt, p)" by (cases a)
  from Cons.prems a have wt: "wt = Fin 0" and f: "finite_vec (pose_t p)" by auto
  from f obtain b c d where t: "pose_t p = Vector3d (Fin b) (Fin c) (Fin d)"
    by (rule finite_vecE)
  from Cons show ?case using a wt t by simp
qed

lemma sum_rotation_zero:
  "\<forall>(wt, p) \<in> set xs. wt = Fin 0 \<and> finite_quat (pose_q p)
   \<Longrightarrow> sum_rotation xs (Fin 0, Fin 0, Fin 0, Fin 0) = (Fin 0, Fin 0, Fin 0, Fin 0)"
proof (induction xs)
  case Nil
  show ?case by simp
next
  case (Cons a xs)
  obtain wt p where a: "a = (wt, p)" by (cases a)
  from Cons.prems a have wt: "wt = Fin 0" and f: "finite_quat (pose_q p)" by auto
  from f obtain w x y z where q: "pose_q p = Quaterniond (Fin w) (Fin x) (Fin y) (Fin z)"
    by (rule finite_quatE)
  from Cons show ?case using a wt q by simp
qed

lemma sum_translation_finite:
  "\<forall>(wt, p) \<in> set xs. isfinite wt \<and> finite_vec (pose_t p)
   \<Longrightarrow> \<exists>a' b' c'. sum_translation xs (Vector3d (Fin a) (Fin b) (Fin c))
                   = Vector3d (Fin a') (Fin b') (Fin c')"
proof (induction xs arbitrary: a b c)
  case Nil
  show ?case by simp
next
  case (Cons e xs)
  obtain wt p where e: "e = (wt, p)" by (cases e)
  from Cons.prems e have "isfinite wt" and "finite_vec (pose_t p)" by auto
  then obtain r t1 t2 t3 where wt: "wt = Fin r" and t: "pose_t p = Vector3d (Fin t1) (Fin t2) (Fin t3)"
    by (elim isfiniteE finite_vecE)
  from Cons.prems have "\<forall>(wt, p) \<in> set xs. isfinite wt \<and> finite_vec (pose_t p)" by simp
  from Cons.IH [OF this] show ?case by (simp add: e wt t)
qed

lemma sum_rotation_finite:
  "\<forall>(wt, p) \<in> set xs. isfinite wt \<and> finite_quat (pose_q p)
   \<Longrightarrow> \<exists>x' y' z' w'. sum_rotation xs (Fin x, Fin y, Fin z, Fin w)
                      = (Fin x', Fin y', Fin z', Fin w')"
proof (induction xs arbitrary: x y z w)
  case Nil
  show ?case by simp
next
  case (Cons e xs)
  obtain wt p where e: "e = (wt, p)" by (cases e)
  from Cons.prems e have "isfinite wt" and "finite_quat (pose_q p)" by auto
  then obtain r q0 q1 q2 q3 where wt: "wt = Fin r"
    and q: "pose_q p = Quaterniond (Fin q0) (Fin q1) (Fin q2) (Fin q3)"
    by (elim isfiniteE finite_quatE)
  from Cons.prems have "\<forall>(wt, p) \<in> set xs. isfinite wt \<and> finite_quat (pose_q p)" by simp
  from Cons.IH [OF this] show ?case by (simp add: e wt q)
qed

lemma normalize_quat_inf_signed:
  "has_nan (normalize_quat
     (Quaterniond (inf_signed w) (inf_signed x) (inf_signed y) (inf_signed z)))"
proof (cases "w = 0 \<or> x = 0 \<or> y = 0 \<or> z = 0")
  case True
  then have n: "squaredNorm (Quaterniond (inf_signed w) (inf_signed x) (inf_signed y) (inf_signed z)) = NaN"
    by (auto simp add: squaredNorm_def inf_signed_square)
  have "has_nan (Quaterniond (inf_signed w) (inf_signed x) (inf_signed y) (inf_signed z))"
    using True by (auto simp add: has_nan_def inf_signed_def)
  then show ?thesis by (simp add: normalize_quat_def n)
next
  case False
  then have n: "squaredNorm (Quaterniond (inf_signed w) (inf_signed x) (inf_signed y) (inf_signed z)) = PInf"
    by (simp add: squaredNorm_def inf_signed_square)
  show ?thesis by (simp add: normalize_quat_def n has_nan_def inf_signed_over_PInf)
qed

subsection \<open>Quaternions that can be normalised, and the example poses\<close>

lemma squaredNorm_Fin_nonzero:
  assumes "w \<noteq> 0 \<or> x \<noteq> 0 \<or> y \<noteq> 0 \<or> z \<noteq> 0"
  shows "squaredNorm (Quaterniond (Fin w) (Fin x) (Fin y) (Fin z)) \<noteq> Fin 0"
proof -
  have "0 \<le> x*x" "0 \<le> y*y" "0 \<le> z*z" "0 \<le> w*w" by simp_all
  moreover have "0 < x*x \<or> 0 < y*y \<or> 0 < z*z \<or> 0 < w*w"
    using assms not_real_square_gt_zero by blast
  ultimately have "x*x + y*y + z*z + w*w \<noteq> 0" by linarith
  then show ?thesis by (simp add: squaredNorm_def)
qed

lemma Quaterniond_of_matrix_nonzero:
  "\<exists>w x y z.
     Quaterniond_of_matrix
       (Matrix3d (Vector3d (Fin m00) (Fin m01) (Fin m02))
                 (Vector3d (Fin m10) (Fin m11) (Fin m12))
                 (Vector3d (Fin m20) (Fin m21) (Fin m22)))
     = Quaterniond (Fin w) (Fin x) (Fin y) (Fin z)
     \<and> (w \<noteq> 0 \<or> x \<noteq> 0 \<or> y \<noteq> 0 \<or> z \<noteq> 0)"
proof -
  consider (A) "0 < m00 + m11 + m22"
    | (B0) "\<not> 0 < m00 + m11 + m22" "\<not> m00 < m11" "\<not> m00 < m22"
    | (B1) "\<not> 0 < m00 + m11 + m22" "m00 < m11" "\<not> m11 < m22"
    | (B2) "\<not> 0 < m00 + m11 + m22" "if m00 < m11 then m11 < m22 else m00 < m22"
    by (cases "0 < m00 + m11 + m22"; cases "m00 < m11"; cases "m11 < m22"; cases "m00 < m22") auto
  then show ?thesis
  proof cases
    case A
    then have "0 < m00 + m11 + m22 + 1" by simp
    then have "1/2 * sqrt (m00 + m11 + m22 + 1) \<noteq> 0" by simp
    then show ?thesis unfolding Quaterniond_of_matrix_trace_pos [OF A] by blast
  next
    case B0
    then have "0 < m00 - m11 - m22 + 1" by linarith
    then have "1/2 * sqrt (m00 - m11 - m22 + 1) \<noteq> 0" by simp
    then show ?thesis unfolding Quaterniond_of_matrix_i0 [OF B0] by blast
  next
    case B1
    then have "0 < m11 - m22 - m00 + 1" by linarith
    then have "1/2 * sqrt (m11 - m22 - m00 + 1) \<noteq> 0" by simp
    then show ?thesis unfolding Quaterniond_of_matrix_i1 [OF B1] by blast
  next
    case B2
    then have "0 < m22 - m00 - m11 + 1" by (auto split: if_splits)
    then have "1/2 * sqrt (m22 - m00 - m11 + 1) \<noteq> 0" by simp
    then show ?thesis unfolding Quaterniond_of_matrix_i2 [OF B2] by blast
  qed
qed

lemma Quaterniond_of_matrix_R_scaled:
  "Quaterniond_of_matrix R_scaled = Quaterniond (Fin 2) (Fin 0) (Fin 0) (Fin 0)"
  unfolding R_scaled_def by (simp add: Quaterniond_of_matrix_trace_pos sqrt_16)

lemma valid_pose_half_turn_x: "valid_pose pose_half_turn_x"
  by (simp add: valid_pose_def pose_half_turn_x_def Pose_q_t_def Let_def normalize_quat_def
      squaredNorm_def finite_vec_def)

lemma valid_pose_half_turn_y: "valid_pose pose_half_turn_y"
  by (simp add: valid_pose_def pose_half_turn_y_def Pose_q_t_def Let_def normalize_quat_def
      squaredNorm_def finite_vec_def)

lemma valid_pose_shift: "valid_pose (pose_shift a)"
  by (simp add: valid_pose_def pose_shift_def Pose_q_t_def Let_def normalize_quat_def
      squaredNorm_def finite_vec_def Quaterniond_Identity_def)


section \<open>Construction\<close>

text \<open>
  Claim C1. Every constructed pose should store a rotation of norm one, whatever the
  norm of the rotation it is built from. The constructor from an odometry record and the
  constructor from a 3x3 matrix do not call \<^verbatim>\<open>normalize\<close>: built from the
  orientation \<open>(x, y, z, w) = (0, 0, 0, 2)\<close>, and from five times the identity matrix,
  the stored quaternion is \<open>(w, x, y, z) = (2, 0, 0, 0)\<close>, of squared norm four.
\<close>

theorem constructors_not_normalized:
  "squaredNorm (pose_q (Pose_odom (odom_example (Fin 2) 0))) = Fin 4
   \<and> squaredNorm (pose_q (Pose_R_t R_scaled Vector3d_Zero (Fin 0))) = Fin 4"
  by (simp add: Pose_odom_def odom_example_def Let_def Pose_R_t_def
      Quaterniond_of_matrix_R_scaled squaredNorm_def)

text \<open>The two constructors that call \<^verbatim>\<open>normalize\<close> do establish the invariant:
  the one from a quaternion whenever its coefficients are finite and not all zero, the one
  from a 4x4 matrix whenever the rotation block is finite.\<close>

lemma Pose_q_t_unit_norm:
  "finite_quat q \<Longrightarrow> squaredNorm q \<noteq> Fin 0 \<Longrightarrow> unit_quat (pose_q (Pose_q_t q t td))"
  by (simp add: Pose_q_t_def Let_def normalize_quat_unit_norm)

lemma Pose_T_unit_norm:
  "unit_quat (pose_q (Pose_T
     (Matrix4d (Vector4d (Fin m00) (Fin m01) (Fin m02) d0)
               (Vector4d (Fin m10) (Fin m11) (Fin m12) d1)
               (Vector4d (Fin m20) (Fin m21) (Fin m22) d2) r3) td))"
proof -
  obtain w x y z where q: "Quaterniond_of_matrix
       (Matrix3d (Vector3d (Fin m00) (Fin m01) (Fin m02))
                 (Vector3d (Fin m10) (Fin m11) (Fin m12))
                 (Vector3d (Fin m20) (Fin m21) (Fin m22)))
     = Quaterniond (Fin w) (Fin x) (Fin y) (Fin z)"
    and nz: "w \<noteq> 0 \<or> x \<noteq> 0 \<or> y \<noteq> 0 \<or> z \<noteq> 0"
    using Quaterniond_of_matrix_nonzero by blast
  have "unit_quat (normalize_quat (Quaterniond (Fin w) (Fin x) (Fin y) (Fin z)))"
    by (rule normalize_quat_unit_norm) (simp_all add: finite_quat_def squaredNorm_Fin_nonzero [OF nz])
  then show ?thesis by (simp add: Pose_T_def q)
qed

text \<open>
  Claim C3. The pose made from an odometry record depends on the record only through
  the orientation and the position of \<^verbatim>\<open>odom.pose.pose\<close>: two records that agree on
  these seven scalars give the same pose, whatever their headers, covariances and twists.
  Its time offset is zero, the default, since the constructor assigns none.
\<close>

theorem Pose_odom_reads_pose_only:
  assumes "orientation (pose (odom_pose odom1)) = orientation (pose (odom_pose odom2))"
      and "position (pose (odom_pose odom1)) = position (pose (odom_pose odom2))"
  shows "Pose_odom odom1 = Pose_odom odom2 \<and> pose_td (Pose_odom odom1) = Fin 0"
  using assms by (simp add: Pose_odom_def Let_def td_unassigned_def)

theorem Pose_odom_reads_pose_only_witness:
  "odom_example (Fin 1) 0 \<noteq> odom_example (Fin 1) 7
   \<and> Pose_odom (odom_example (Fin 1) 0) = Pose_odom (odom_example (Fin 1) 7)
   \<and> pose_td (Pose_odom (odom_example (Fin 1) 0)) = Fin 0"
proof -
  have o: "orientation (pose (odom_pose (odom_example (Fin 1) 0)))
         = orientation (pose (odom_pose (odom_example (Fin 1) 7)))"
    by (simp add: odom_example_def)
  have p: "position (pose (odom_pose (odom_example (Fin 1) 0)))
         = position (pose (odom_pose (odom_example (Fin 1) 7)))"
    by (simp add: odom_example_def)
  have d: "odom_example (Fin 1) 0 \<noteq> odom_example (Fin 1) 7"
    by (simp add: odom_example_def)
  show ?thesis
    using Pose_odom_reads_pose_only [OF o p] d by blast
qed

text \<open>
  Claim C9, as stated, fails on the two constructors that take a matrix: they store the
  matrix they are given. With five times the identity as the rotation block, the
  constructor from a 3x3 matrix stores the quaternion \<open>(2, 0, 0, 0)\<close> and the one from
  a 4x4 matrix the quaternion \<open>(1, 0, 0, 0)\<close>; the rotation matrix of either is the
  identity, and the cached block is five times the identity.
\<close>

theorem cache_diverges:
  "\<not> cache_consistent (Pose_R_t R_scaled Vector3d_Zero (Fin 0))
   \<and> \<not> cache_consistent (Pose_T T_scaled (Fin 0))"
proof -
  note q = Quaterniond_of_matrix_R_scaled
  have n: "normalize_quat (Quaterniond (Fin 2) (Fin 0) (Fin 0) (Fin 0)) = Quaterniond (Fin 1) (Fin 0) (Fin 0) (Fin 0)"
    by (simp add: normalize_quat_def squaredNorm_def Let_def)
  have t: "topLeftCorner T_scaled = R_scaled"
    by (simp add: T_scaled_def R_scaled_def)
  have 1: "\<not> cache_consistent (Pose_R_t R_scaled Vector3d_Zero (Fin 0))"
    by (simp add: cache_consistent_def Pose_R_t_def q blocks_of_set toRotationMatrix_Fin)
       (simp add: R_scaled_def)
  have 2: "\<not> cache_consistent (Pose_T T_scaled (Fin 0))"
    by (simp add: cache_consistent_def Pose_T_def t q n toRotationMatrix_Fin)
       (simp add: R_scaled_def)
  from 1 2 show ?thesis by simp
qed

text \<open>
  Claim C9 (amended). For a pose made by the default constructor, from a quaternion or
  from an odometry record, the cache agrees with the stored rotation and translation:
  its top-left block is the rotation matrix of the stored quaternion, its top-right
  block the stored translation, its bottom row \<open>(0 0 0 1)\<close>. The constructor
  from a 3x3 matrix stores the given matrix \<open>R\<close> as the top-left block (with the stored
  translation beside it and the bottom row \<open>(0 0 0 1)\<close>), and the constructor from a 4x4
  matrix stores the given matrix \<open>T\<close> as it is (its top-right block is the stored
  translation). On these two the cache is consistent with the stored rotation when
  \<open>R\<close> is the rotation matrix of a unit quaternion, and when \<open>T\<close> is the homogeneous
  matrix of a unit quaternion and a translation.
\<close>

theorem cache_consistent_paths:
  "cache_consistent Pose_default
   \<and> cache_consistent (Pose_q_t q t td)
   \<and> cache_consistent (Pose_odom odom)
   \<and> (unit_quat r \<longrightarrow> cache_consistent (Pose_R_t (toRotationMatrix r) t td))
   \<and> (unit_quat r \<longrightarrow> cache_consistent (Pose_T (transform_of r t) td))
   \<and> topLeftCorner (pose_T (Pose_R_t R t td)) = R
   \<and> topRightCorner (pose_T (Pose_R_t R t td)) = pose_t (Pose_R_t R t td)
   \<and> bottomRow (pose_T (Pose_R_t R t td)) = Vector4d (Fin 0) (Fin 0) (Fin 0) (Fin 1)
   \<and> pose_T (Pose_T T td) = T
   \<and> topRightCorner (pose_T (Pose_T T td)) = pose_t (Pose_T T td)"
proof -
  have 1: "cache_consistent Pose_default"
    by (simp add: cache_consistent_def Pose_default_def Matrix4d_Identity_def
        Quaterniond_Identity_def Vector3d_Zero_def toRotationMatrix_Fin)
  have 2: "cache_consistent (Pose_q_t q t td)"
    by (simp add: cache_consistent_def Pose_q_t_def Let_def blocks_of_set)
  have 3: "cache_consistent (Pose_odom odom)"
    by (simp add: cache_consistent_def Pose_odom_def Let_def blocks_of_set)
  have 4: "cache_consistent (Pose_R_t (toRotationMatrix r) t td)" if "unit_quat r"
    using Quaterniond_of_matrix_rotation [OF that]
    by (simp add: cache_consistent_def Pose_R_t_def blocks_of_set)
  have 5: "cache_consistent (Pose_T (transform_of r t) td)" if "unit_quat r"
    using Quaterniond_of_matrix_rotation [OF that]
    by (simp add: cache_consistent_def Pose_T_def blocks_of_transform normalize_quat_unit)
  have 6: "topLeftCorner (pose_T (Pose_R_t R t td)) = R
     \<and> topRightCorner (pose_T (Pose_R_t R t td)) = pose_t (Pose_R_t R t td)
     \<and> bottomRow (pose_T (Pose_R_t R t td)) = Vector4d (Fin 0) (Fin 0) (Fin 0) (Fin 1)"
    by (simp add: Pose_R_t_def blocks_of_set)
  have 7: "pose_T (Pose_T T td) = T
     \<and> topRightCorner (pose_T (Pose_T T td)) = pose_t (Pose_T T td)"
    by (simp add: Pose_T_def)
  from 1 2 3 4 5 6 7 show ?thesis by blast
qed

theorem cache_consistent_paths_witness:
  "cache_consistent Pose_default
   \<and> cache_consistent pose_half_turn_x
   \<and> cache_consistent (Pose_odom (odom_example (Fin 2) 0))
   \<and> cache_consistent
        (Pose_R_t (toRotationMatrix (Quaterniond (Fin 0) (Fin 1) (Fin 0) (Fin 0))) Vector3d_Zero (Fin 0))
   \<and> cache_consistent
        (Pose_T (transform_of (Quaterniond (Fin 0) (Fin 1) (Fin 0) (Fin 0)) Vector3d_Zero) (Fin 0))"
proof -
  have u: "unit_quat (Quaterniond (Fin 0) (Fin 1) (Fin 0) (Fin 0))" by simp
  show ?thesis
    using cache_consistent_paths
      [of "Quaterniond (Fin 0) (Fin 1) (Fin 0) (Fin 0)" "Vector3d (Fin 1) (Fin 0) (Fin 0)" "Fin 0"
          "odom_example (Fin 2) 0" "Quaterniond (Fin 0) (Fin 1) (Fin 0) (Fin 0)"]
      cache_consistent_paths
      [of "Quaterniond (Fin 0) (Fin 1) (Fin 0) (Fin 0)" "Vector3d_Zero" "Fin 0"
          "odom_example (Fin 2) 0" "Quaterniond (Fin 0) (Fin 1) (Fin 0) (Fin 0)"]
      u
    by (simp add: pose_half_turn_x_def)
qed


section \<open>Composition\<close>

text \<open>
  Claim C4, as stated, fails on a pose whose rotation is not a unit quaternion, such as
  the pose the constructor from an odometry record makes of the orientation
  \<open>(x, y, z, w) = (0, 0, 0, 2)\<close>: composed with the default pose, the product of the two
  rotations is \<open>(w, x, y, z) = (2, 0, 0, 0)\<close>, and the rotation of the result is
  \<open>(1, 0, 0, 0)\<close>, since the constructor that \<open>poseTransform\<close> calls normalises it.
\<close>

theorem poseTransform_rotation_normalised:
  "pose_q (poseTransform (Pose_odom (odom_example (Fin 2) 0)) Pose_default)
     = Quaterniond (Fin 1) (Fin 0) (Fin 0) (Fin 0)
   \<and> qmul (pose_q (Pose_odom (odom_example (Fin 2) 0))) (pose_q Pose_default)
     = Quaterniond (Fin 2) (Fin 0) (Fin 0) (Fin 0)"
  by (simp add: poseTransform_def Pose_q_t_def Pose_odom_def odom_example_def Pose_default_def
      Quaterniond_Identity_def Let_def normalize_quat_def squaredNorm_def)

text \<open>
  Claim C4 (amended). For all poses \<open>pose1\<close> and \<open>pose2\<close>, \<open>poseTransform pose1 pose2\<close>
  has the rotation \<open>pose1.q_ * pose2.q_\<close> normalised, which is \<open>pose1.q_ * pose2.q_\<close>
  itself when both rotations are unit quaternions, the translation
  \<open>pose1.q_ * pose2.t_ + pose1.t_\<close>, and the time offset zero, whatever the time offsets
  of the two arguments are.
\<close>

theorem poseTransform_formula:
  "pose_q (poseTransform pose1 pose2) = normalize_quat (qmul (pose_q pose1) (pose_q pose2))
   \<and> (unit_quat (pose_q pose1) \<and> unit_quat (pose_q pose2)
        \<longrightarrow> pose_q (poseTransform pose1 pose2) = qmul (pose_q pose1) (pose_q pose2))
   \<and> pose_t (poseTransform pose1 pose2)
        = vadd (transformVector (pose_q pose1) (pose_t pose2)) (pose_t pose1)
   \<and> pose_td (poseTransform pose1 pose2) = Fin 0"
proof -
  have 1: "pose_q (poseTransform pose1 pose2)
           = normalize_quat (qmul (pose_q pose1) (pose_q pose2))"
    by (simp add: poseTransform_def Pose_q_t_def Let_def)
  have 2: "pose_q (poseTransform pose1 pose2) = qmul (pose_q pose1) (pose_q pose2)"
    if "unit_quat (pose_q pose1)" and "unit_quat (pose_q pose2)"
    using unit_quat_qmul [OF that] by (simp add: 1 normalize_quat_unit)
  have 3: "pose_t (poseTransform pose1 pose2)
        = vadd (transformVector (pose_q pose1) (pose_t pose2)) (pose_t pose1)"
    by (simp add: poseTransform_def)
  have 4: "pose_td (poseTransform pose1 pose2) = Fin 0"
    by (simp add: poseTransform_def td_default_def)
  from 1 2 3 4 show ?thesis by blast
qed

theorem poseTransform_formula_witness:
  "pose_q (poseTransform pose_half_turn_x pose_half_turn_y) = Quaterniond (Fin 0) (Fin 0) (Fin 0) (Fin 1)
   \<and> pose_t (poseTransform pose_half_turn_x pose_half_turn_y) = Vector3d (Fin 1) (Fin (- 1)) (Fin 0)
   \<and> pose_td (poseTransform pose_half_turn_x pose_half_turn_y) = Fin 0"
proof -
  have x: "unit_quat (pose_q pose_half_turn_x)" and y: "unit_quat (pose_q pose_half_turn_y)"
    using valid_pose_half_turn_x valid_pose_half_turn_y by (simp_all add: valid_pose_def)
  have qx: "pose_q pose_half_turn_x = Quaterniond (Fin 0) (Fin 1) (Fin 0) (Fin 0)"
    by (simp add: pose_half_turn_x_def pose_q_Pose_q_t)
  have qy: "pose_q pose_half_turn_y = Quaterniond (Fin 0) (Fin 0) (Fin 1) (Fin 0)"
    by (simp add: pose_half_turn_y_def pose_q_Pose_q_t)
  have t: "pose_t pose_half_turn_x = Vector3d (Fin 1) (Fin 0) (Fin 0)"
          "pose_t pose_half_turn_y = Vector3d (Fin 0) (Fin 1) (Fin 0)"
    by (simp_all add: pose_half_turn_x_def pose_half_turn_y_def)
  from poseTransform_formula [of pose_half_turn_x pose_half_turn_y] x y
  have "pose_q (poseTransform pose_half_turn_x pose_half_turn_y)
          = qmul (pose_q pose_half_turn_x) (pose_q pose_half_turn_y)
      \<and> pose_t (poseTransform pose_half_turn_x pose_half_turn_y)
          = vadd (transformVector (pose_q pose_half_turn_x) (pose_t pose_half_turn_y))
                 (pose_t pose_half_turn_x)
      \<and> pose_td (poseTransform pose_half_turn_x pose_half_turn_y) = Fin 0"
    by blast
  then show ?thesis
    by (simp add: qx qy t transformVector_def Let_def)
qed

text \<open>
  Claim C5. The operator form \<open>p1 * p2\<close> (\<open>times_pose\<close>, with \<open>p1\<close> as \<open>this\<close>)
  returns the same pose as \<open>poseTransform p1 p2\<close>: the same rotation, translation,
  cached matrix and time offset.
\<close>

theorem times_pose_eq_poseTransform: "times_pose p1 p2 = poseTransform p1 p2"
  by (simp add: times_pose_def poseTransform_def)

text \<open>
  Claim C7, as stated, fails on a pose whose rotation is not a unit quaternion. With \<open>a\<close>
  the pose made of the odometry orientation \<open>(x, y, z, w) = (2, 0, 0, 0)\<close>, \<open>b\<close> the
  default pose and \<open>c\<close> the translation by \<open>(0, 1, 0)\<close>, the translation of
  \<open>(a b) c\<close> is \<open>(0, -1, 0)\<close> and that of \<open>a (b c)\<close> is \<open>(0, -7, 0)\<close>: the rotation
  of \<open>a b\<close> has been normalised, and the rotation of \<open>a\<close>, applied as it is, scales.
\<close>

theorem poseTransform_not_assoc:
  "pose_t (poseTransform (poseTransform (Pose_odom odom_scaled_half_turn) Pose_default) pose_shift_y)
     = Vector3d (Fin 0) (Fin (- 1)) (Fin 0)
   \<and> pose_t (poseTransform (Pose_odom odom_scaled_half_turn) (poseTransform Pose_default pose_shift_y))
     = Vector3d (Fin 0) (Fin (- 7)) (Fin 0)
   \<and> poseTransform (poseTransform (Pose_odom odom_scaled_half_turn) Pose_default) pose_shift_y
     \<noteq> poseTransform (Pose_odom odom_scaled_half_turn) (poseTransform Pose_default pose_shift_y)"
proof -
  have a: "pose_q (Pose_odom odom_scaled_half_turn) = Quaterniond (Fin 0) (Fin 2) (Fin 0) (Fin 0)"
          "pose_t (Pose_odom odom_scaled_half_turn) = Vector3d (Fin 0) (Fin 0) (Fin 0)"
    by (simp_all add: Pose_odom_def odom_scaled_half_turn_def Let_def)
  have b: "pose_q Pose_default = Quaterniond (Fin 1) (Fin 0) (Fin 0) (Fin 0)"
          "pose_t Pose_default = Vector3d (Fin 0) (Fin 0) (Fin 0)"
    by (simp_all add: Pose_default_def Quaterniond_Identity_def Vector3d_Zero_def)
  have c: "pose_q pose_shift_y = Quaterniond (Fin 1) (Fin 0) (Fin 0) (Fin 0)"
          "pose_t pose_shift_y = Vector3d (Fin 0) (Fin 1) (Fin 0)"
    by (simp_all add: pose_shift_y_def Pose_q_t_def Let_def normalize_quat_def squaredNorm_def
        Quaterniond_Identity_def)
  have ab: "pose_q (poseTransform (Pose_odom odom_scaled_half_turn) Pose_default)
              = Quaterniond (Fin 0) (Fin 1) (Fin 0) (Fin 0)"
           "pose_t (poseTransform (Pose_odom odom_scaled_half_turn) Pose_default)
              = Vector3d (Fin 0) (Fin 0) (Fin 0)"
    by (simp_all add: poseTransform_def a b Pose_q_t_def Let_def normalize_quat_def
        squaredNorm_def transformVector_def)
  have bc: "pose_q (poseTransform Pose_default pose_shift_y)
              = Quaterniond (Fin 1) (Fin 0) (Fin 0) (Fin 0)"
           "pose_t (poseTransform Pose_default pose_shift_y)
              = Vector3d (Fin 0) (Fin 1) (Fin 0)"
    by (simp_all add: poseTransform_def b c Pose_q_t_def Let_def normalize_quat_def
        squaredNorm_def transformVector_def)
  have l: "pose_t (poseTransform (poseTransform (Pose_odom odom_scaled_half_turn) Pose_default) pose_shift_y)
     = Vector3d (Fin 0) (Fin (- 1)) (Fin 0)"
    by (simp add: poseTransform_def [of "poseTransform (Pose_odom odom_scaled_half_turn) Pose_default"]
        ab c transformVector_def Let_def)
  have r: "pose_t (poseTransform (Pose_odom odom_scaled_half_turn) (poseTransform Pose_default pose_shift_y))
     = Vector3d (Fin 0) (Fin (- 7)) (Fin 0)"
    by (simp add: poseTransform_def [of "Pose_odom odom_scaled_half_turn"]
        a bc transformVector_def Let_def)
  from l r have "poseTransform (poseTransform (Pose_odom odom_scaled_half_turn) Pose_default) pose_shift_y
     \<noteq> poseTransform (Pose_odom odom_scaled_half_turn) (poseTransform Pose_default pose_shift_y)"
    by auto
  with l r show ?thesis by blast
qed

text \<open>
  Claim C7 (amended). For poses \<open>a\<close>, \<open>b\<close>, \<open>c\<close> whose rotations are unit quaternions
  and whose translations are finite, composition is associative:
  \<open>poseTransform (poseTransform a b) c\<close> and \<open>poseTransform a (poseTransform b c)\<close> are
  the same pose, so they agree in rotation and in translation.
\<close>

theorem poseTransform_assoc:
  assumes a: "valid_pose a" and b: "valid_pose b" and c: "valid_pose c"
  shows "poseTransform (poseTransform a b) c = poseTransform a (poseTransform b c)"
proof -
  from a b c have qa: "unit_quat (pose_q a)" and qb: "unit_quat (pose_q b)" and qc: "unit_quat (pose_q c)"
    and ta: "finite_vec (pose_t a)" and tb: "finite_vec (pose_t b)" and tc: "finite_vec (pose_t c)"
    by (simp_all add: valid_pose_def)
  note fa = unit_quat_finite [OF qa] and fb = unit_quat_finite [OF qb] and fc = unit_quat_finite [OF qc]
  have qab: "pose_q (poseTransform a b) = qmul (pose_q a) (pose_q b)"
    by (simp add: poseTransform_def pose_q_Pose_q_t unit_quat_qmul qa qb)
  have qbc: "pose_q (poseTransform b c) = qmul (pose_q b) (pose_q c)"
    by (simp add: poseTransform_def pose_q_Pose_q_t unit_quat_qmul qb qc)
  have tab: "pose_t (poseTransform a b) = vadd (transformVector (pose_q a) (pose_t b)) (pose_t a)"
    by (simp add: poseTransform_def)
  have tbc: "pose_t (poseTransform b c) = vadd (transformVector (pose_q b) (pose_t c)) (pose_t b)"
    by (simp add: poseTransform_def)
  have rot: "qmul (qmul (pose_q a) (pose_q b)) (pose_q c) = qmul (pose_q a) (qmul (pose_q b) (pose_q c))"
    by (rule qmul_assoc [OF fa fb fc])
  have "vadd (transformVector (qmul (pose_q a) (pose_q b)) (pose_t c))
             (vadd (transformVector (pose_q a) (pose_t b)) (pose_t a))
      = vadd (transformVector (pose_q a) (transformVector (pose_q b) (pose_t c)))
             (vadd (transformVector (pose_q a) (pose_t b)) (pose_t a))"
    by (simp add: transformVector_qmul [OF qa qb tc])
  also have "\<dots> = vadd (vadd (transformVector (pose_q a) (transformVector (pose_q b) (pose_t c)))
                         (transformVector (pose_q a) (pose_t b))) (pose_t a)"
    by (simp add: vadd_assoc transformVector_finite_vec fa fb ta tb tc)
  also have "\<dots> = vadd (transformVector (pose_q a) (vadd (transformVector (pose_q b) (pose_t c)) (pose_t b)))
                       (pose_t a)"
    by (simp add: transformVector_vadd transformVector_finite_vec fa fb tb tc)
  finally have tr: "vadd (transformVector (qmul (pose_q a) (pose_q b)) (pose_t c))
             (vadd (transformVector (pose_q a) (pose_t b)) (pose_t a))
      = vadd (transformVector (pose_q a) (vadd (transformVector (pose_q b) (pose_t c)) (pose_t b)))
                       (pose_t a)" .
  have "poseTransform (poseTransform a b) c
      = Pose_q_t (qmul (qmul (pose_q a) (pose_q b)) (pose_q c))
          (vadd (transformVector (qmul (pose_q a) (pose_q b)) (pose_t c))
             (vadd (transformVector (pose_q a) (pose_t b)) (pose_t a))) td_default"
    unfolding poseTransform_def [of "poseTransform a b" c] qab tab ..
  also have "\<dots> = Pose_q_t (qmul (pose_q a) (qmul (pose_q b) (pose_q c)))
          (vadd (transformVector (pose_q a) (vadd (transformVector (pose_q b) (pose_t c)) (pose_t b)))
                       (pose_t a)) td_default"
    by (simp only: rot tr)
  also have "\<dots> = poseTransform a (poseTransform b c)"
    unfolding poseTransform_def [of a "poseTransform b c"] qbc tbc ..
  finally show ?thesis .
qed

theorem poseTransform_assoc_witness:
  "poseTransform (poseTransform pose_half_turn_x pose_half_turn_y) (pose_shift 2)
     = poseTransform pose_half_turn_x (poseTransform pose_half_turn_y (pose_shift 2))"
  by (rule poseTransform_assoc
      [OF valid_pose_half_turn_x valid_pose_half_turn_y valid_pose_shift])


section \<open>Inversion\<close>

text \<open>
  Claim C6. For a pose \<open>p\<close> with a unit rotation (and a finite translation),
  \<open>poseTransform p (inverse_pose p)\<close> has the identity rotation and the zero translation.
\<close>

theorem poseTransform_inverse_pose:
  assumes "valid_pose p"
  shows "pose_q (poseTransform p (inverse_pose p)) = Quaterniond_Identity
       \<and> pose_t (poseTransform p (inverse_pose p)) = Vector3d_Zero"
proof -
  from assms have u: "unit_quat (pose_q p)" and f: "finite_vec (pose_t p)"
    by (simp_all add: valid_pose_def)
  from u obtain w x y z where q: "pose_q p = Quaterniond (Fin w) (Fin x) (Fin y) (Fin z)"
    and n: "x*x + y*y + z*z + w*w = 1"
    by (rule unit_quatE)
  from f obtain a b c where t: "pose_t p = Vector3d (Fin a) (Fin b) (Fin c)"
    by (rule finite_vecE)
  have iq: "pose_q (inverse_pose p) = conjugate (pose_q p)"
    by (simp add: inverse_pose_def qinverse_unit [OF u] pose_q_Pose_q_t unit_quat_conjugate [OF u])
  have it: "pose_t (inverse_pose p) = vneg (transformVector (conjugate (pose_q p)) (pose_t p))"
    by (simp add: inverse_pose_def qinverse_unit [OF u])
  have one: "qmul (pose_q p) (conjugate (pose_q p)) = Quaterniond_Identity"
    using n by (simp add: q conjugate_def Quaterniond_Identity_def algebra_simps)
  have rot: "pose_q (poseTransform p (inverse_pose p)) = Quaterniond_Identity"
    by (simp add: poseTransform_def iq one pose_q_Pose_q_t Quaterniond_Identity_def)
  have "vadd (transformVector (pose_q p) (vneg (transformVector (conjugate (pose_q p)) (pose_t p)))) (pose_t p)
      = Vector3d_Zero"
    unfolding q t
    apply (simp add: transformVector_def conjugate_def Let_def Vector3d_Zero_def)
    apply (intro conjI)
    using n apply algebra
    using n apply algebra
    using n apply algebra
    done
  then have tr: "pose_t (poseTransform p (inverse_pose p)) = Vector3d_Zero"
    by (simp add: poseTransform_def it)
  from rot tr show ?thesis by simp
qed

theorem poseTransform_inverse_pose_witness:
  "pose_q (poseTransform pose_half_turn_x (inverse_pose pose_half_turn_x)) = Quaterniond_Identity
   \<and> pose_t (poseTransform pose_half_turn_x (inverse_pose pose_half_turn_x)) = Vector3d_Zero"
  by (rule poseTransform_inverse_pose [OF valid_pose_half_turn_x])


section \<open>Averaging\<close>

text \<open>
  Claim C2, as stated, fails: on the empty array the total weight is zero, each of the
  seven divisions is \<open>0/0\<close>, and the pose written to the output has \<open>NaN\<close> in every
  coefficient of its rotation and of its translation. No failure is signalled and the
  result is not the identity pose.
\<close>

theorem computeMeanPose_empty:
  "pose_q (computeMeanPose []) = Quaterniond NaN NaN NaN NaN
   \<and> pose_t (computeMeanPose []) = Vector3d NaN NaN NaN"
  by (simp add: computeMeanPose_def Let_def Pose_q_t_def normalize_quat_def squaredNorm_def
      Vector3d_Zero_def inf_signed_def)

text \<open>
  Claim C2 (amended). On an array of finite weights and finite poses whose total weight
  is zero (the empty array among them), \<open>computeMeanPose\<close> divides by the zero total
  weight: the rotation of the output pose has a \<open>NaN\<close> coefficient, and no
  coefficient of its translation is finite.
\<close>

theorem computeMeanPose_zero_total_weight:
  assumes fin: "\<forall>(wt, p) \<in> set pose_array.
                  isfinite wt \<and> finite_quat (pose_q p) \<and> finite_vec (pose_t p)"
      and zero: "sum_weight pose_array (Fin 0) = Fin 0"
  shows "has_nan (pose_q (computeMeanPose pose_array))
       \<and> \<not> isfinite (vx (pose_t (computeMeanPose pose_array)))
       \<and> \<not> isfinite (vy (pose_t (computeMeanPose pose_array)))
       \<and> \<not> isfinite (vz (pose_t (computeMeanPose pose_array)))"
proof -
  from fin have "\<forall>(wt, p) \<in> set pose_array. isfinite wt \<and> finite_vec (pose_t p)" by auto
  from sum_translation_finite [OF this] obtain a b c
    where t: "sum_translation pose_array Vector3d_Zero = Vector3d (Fin a) (Fin b) (Fin c)"
    unfolding Vector3d_Zero_def by blast
  from fin have "\<forall>(wt, p) \<in> set pose_array. isfinite wt \<and> finite_quat (pose_q p)" by auto
  from sum_rotation_finite [OF this] obtain x y z w
    where r: "sum_rotation pose_array (Fin 0, Fin 0, Fin 0, Fin 0) = (Fin x, Fin y, Fin z, Fin w)"
    by blast
  have m: "computeMeanPose pose_array =
           Pose_q_t (Quaterniond (inf_signed w) (inf_signed x) (inf_signed y) (inf_signed z))
                    (Vector3d (inf_signed a) (inf_signed b) (inf_signed c)) td_default"
    by (simp add: computeMeanPose_def zero t r)
  show ?thesis
    unfolding m
    by (simp add: Pose_q_t_def Let_def normalize_quat_inf_signed inf_signed_not_finite)
qed

theorem computeMeanPose_zero_total_weight_witness:
  "has_nan (pose_q (computeMeanPose [(Fin 0, pose_half_turn_x), (Fin 0, pose_shift 2)]))
   \<and> \<not> isfinite (vx (pose_t (computeMeanPose [(Fin 0, pose_half_turn_x), (Fin 0, pose_shift 2)])))
   \<and> \<not> isfinite (vy (pose_t (computeMeanPose [(Fin 0, pose_half_turn_x), (Fin 0, pose_shift 2)])))
   \<and> \<not> isfinite (vz (pose_t (computeMeanPose [(Fin 0, pose_half_turn_x), (Fin 0, pose_shift 2)])))"
proof -
  have f: "\<forall>(wt, p) \<in> set [(Fin 0, pose_half_turn_x), (Fin 0, pose_shift 2)].
             isfinite wt \<and> finite_quat (pose_q p) \<and> finite_vec (pose_t p)"
    using valid_pose_half_turn_x valid_pose_shift [of 2]
    by (simp add: valid_pose_def unit_quat_finite)
  have z: "sum_weight [(Fin 0, pose_half_turn_x), (Fin 0, pose_shift 2)] (Fin 0) = Fin 0"
    by simp
  from computeMeanPose_zero_total_weight [OF f z] show ?thesis .
qed

text \<open>When every weight is zero, as it must be for non-negative weights of sum zero,
  every coefficient of the output is \<open>NaN\<close>.\<close>

lemma computeMeanPose_all_zero_weights:
  assumes "\<forall>(wt, p) \<in> set pose_array.
             wt = Fin 0 \<and> finite_quat (pose_q p) \<and> finite_vec (pose_t p)"
  shows "pose_q (computeMeanPose pose_array) = Quaterniond NaN NaN NaN NaN
       \<and> pose_t (computeMeanPose pose_array) = Vector3d NaN NaN NaN"
proof -
  from assms have 1: "\<forall>(wt, p) \<in> set pose_array. wt = Fin 0" by auto
  from assms have 2: "\<forall>(wt, p) \<in> set pose_array. wt = Fin 0 \<and> finite_vec (pose_t p)" by auto
  from assms have 3: "\<forall>(wt, p) \<in> set pose_array. wt = Fin 0 \<and> finite_quat (pose_q p)" by auto
  show ?thesis
    by (simp add: computeMeanPose_def Let_def Pose_q_t_def normalize_quat_def squaredNorm_def
      Vector3d_Zero_def inf_signed_def sum_weight_zero [OF 1]
      sum_translation_zero [OF 2] sum_rotation_zero [OF 3])
qed

text \<open>
  Claim C8, as stated, fails when the common rotation is not a unit quaternion: for two
  copies of the pose made of the odometry orientation \<open>(x, y, z, w) = (0, 0, 0, 2)\<close>,
  whose stored rotation is \<open>(w, x, y, z) = (2, 0, 0, 0)\<close>, the mean pose has the rotation
  \<open>(1, 0, 0, 0)\<close>, since the constructor normalises the averaged quaternion.
\<close>

theorem computeMeanPose_rotation_normalised:
  "pose_q (Pose_odom (odom_example (Fin 2) 0)) = Quaterniond (Fin 2) (Fin 0) (Fin 0) (Fin 0)
   \<and> pose_q (computeMeanPose [(Fin 1, Pose_odom (odom_example (Fin 2) 0)),
                               (Fin 1, Pose_odom (odom_example (Fin 2) 0))])
     = Quaterniond (Fin 1) (Fin 0) (Fin 0) (Fin 0)"
proof -
  have q: "pose_q (Pose_odom (odom_example (Fin 2) 0)) = Quaterniond (Fin 2) (Fin 0) (Fin 0) (Fin 0)"
    by (simp add: Pose_odom_def odom_example_def Let_def)
  have t: "pose_t (Pose_odom (odom_example (Fin 2) 0)) = Vector3d (Fin 1) (Fin 2) (Fin 3)"
    by (simp add: Pose_odom_def odom_example_def Let_def)
  have "pose_q (computeMeanPose [(Fin 1, Pose_odom (odom_example (Fin 2) 0)),
                               (Fin 1, Pose_odom (odom_example (Fin 2) 0))])
     = Quaterniond (Fin 1) (Fin 0) (Fin 0) (Fin 0)"
    by (simp add: computeMeanPose_def q t Vector3d_Zero_def Pose_q_t_def Let_def
        normalize_quat_def squaredNorm_def)
  with q show ?thesis by simp
qed

text \<open>
  Claim C8 (amended). For two poses with the same unit-norm rotation, finite
  translations \<open>t1\<close> and \<open>t2\<close>, and the weights \<open>1.0\<close> and \<open>1.0\<close>, the mean pose has
  the translation \<open>(t1 + t2) / 2\<close> and the common rotation. The instance of the
  specification, the identity rotation with the translations \<open>(0,0,0)\<close> and \<open>(2,0,0)\<close>,
  gives the translation \<open>(1,0,0)\<close> and the identity rotation.
\<close>

theorem computeMeanPose_equal_weights:
  assumes "valid_pose p1" and "valid_pose p2" and "pose_q p1 = pose_q p2"
  shows "pose_t (computeMeanPose [(Fin 1, p1), (Fin 1, p2)])
           = vdiv (vadd (pose_t p1) (pose_t p2)) (Fin 2)
       \<and> pose_q (computeMeanPose [(Fin 1, p1), (Fin 1, p2)]) = pose_q p1"
proof -
  from assms have u: "unit_quat (pose_q p1)" and f1: "finite_vec (pose_t p1)" and f2: "finite_vec (pose_t p2)"
    by (simp_all add: valid_pose_def)
  from u obtain w x y z where q: "pose_q p1 = Quaterniond (Fin w) (Fin x) (Fin y) (Fin z)"
    and n: "x*x + y*y + z*z + w*w = 1"
    by (rule unit_quatE)
  from f1 obtain a1 b1 c1 where t1: "pose_t p1 = Vector3d (Fin a1) (Fin b1) (Fin c1)"
    by (rule finite_vecE)
  from f2 obtain a2 b2 c2 where t2: "pose_t p2 = Vector3d (Fin a2) (Fin b2) (Fin c2)"
    by (rule finite_vecE)
  have q2: "pose_q p2 = Quaterniond (Fin w) (Fin x) (Fin y) (Fin z)"
    using assms(3) q by simp
  have u': "unit_quat (Quaterniond (Fin w) (Fin x) (Fin y) (Fin z))"
    using u q by simp
  show ?thesis
    by (simp add: computeMeanPose_def Let_def q q2 t1 t2 Vector3d_Zero_def
        pose_q_Pose_q_t [OF u'])
qed

theorem computeMeanPose_equal_weights_witness:
  "pose_t (computeMeanPose [(Fin 1, pose_shift 0), (Fin 1, pose_shift 2)])
     = Vector3d (Fin 1) (Fin 0) (Fin 0)
   \<and> pose_q (computeMeanPose [(Fin 1, pose_shift 0), (Fin 1, pose_shift 2)])
     = Quaterniond_Identity"
proof -
  have q: "pose_q (pose_shift 0) = pose_q (pose_shift 2)"
    by (simp add: pose_shift_def Pose_q_t_def Let_def)
  have i: "pose_q (pose_shift 0) = Quaterniond_Identity"
    by (simp add: pose_shift_def Pose_q_t_def Let_def normalize_quat_def squaredNorm_def
        Quaterniond_Identity_def)
  have t: "vdiv (vadd (pose_t (pose_shift 0)) (pose_t (pose_shift 2))) (Fin 2)
         = Vector3d (Fin 1) (Fin 0) (Fin 0)"
    by (simp add: pose_shift_def)
  show ?thesis
    using computeMeanPose_equal_weights [OF valid_pose_shift valid_pose_shift q]
    by (simp only: i t)
qed

text \<open>
  Claim C10. The mean pose has the time offset zero, and the time offsets of the input
  poses are never read: replacing them by any others gives the same result. This holds for
  every input array, so in particular for the non-empty ones of non-zero total weight.
\<close>

theorem computeMeanPose_time_offset:
  "pose_td (computeMeanPose pose_array) = Fin 0
   \<and> computeMeanPose (map (\<lambda>(wt, p). (wt, p\<lparr>pose_td := f p\<rparr>)) pose_array)
       = computeMeanPose pose_array"
  by (simp add: computeMeanPose_def Let_def split_beta td_default_def
      sum_rotation_td sum_translation_td sum_weight_td)

end
